theory Spec2Isabelle
  imports Complex_Main
begin

section \<open>Conventions\<close>

text \<open>
  The Python sources compute with numpy floats and numpy complex numbers. The embedding
  reads a float as a \<^typ>\<open>real\<close> and a complex float as a \<^typ>\<open>complex\<close>: rounding, NaN
  and signed zeros have no counterpart here.  Where numpy would produce NaN (a division
  by a zero norm) the statements below carry the hypothesis that excludes it.
  Python integers are \<^typ>\<open>int\<close>, strings are \<^typ>\<open>string\<close>, a dictionary literal is an
  association list in insertion order, and every \<^verbatim>\<open>raise\<close> is an \<open>Inl\<close> result.
\<close>

datatype error =
    InvalidQuantumNumbers
  | UnknownBasis string
  | UnknownGate string
  | UnknownNamedState string
  | BadFloatLiteral string
  | EmptySequence
  | NegativeSampleCount int
  | CastError

type_synonym nlm = "int \<times> int \<times> int"
type_synonym coeffs = "(nlm \<times> complex) list"
type_synonym vector2 = "complex \<times> complex"
type_synonym matrix2 = "(complex \<times> complex) \<times> (complex \<times> complex)"

section \<open>quantum\_constants.py\<close>

definition MAX_PRINCIPAL_QUANTUM_NUMBER :: int where
  "MAX_PRINCIPAL_QUANTUM_NUMBER = 7"

text \<open>The four checks of \<^verbatim>\<open>validate_quantum_numbers\<close>, in the order of the source; each
  raises \<^verbatim>\<open>ValueError\<close>. The \<^verbatim>\<open>isinstance(_, int)\<close> tests are the type \<^typ>\<open>int\<close>.\<close>

definition validate_quantum_numbers :: "int \<Rightarrow> int \<Rightarrow> int \<Rightarrow> error + bool" where
  "validate_quantum_numbers n l m =
     (if n < 1 then Inl InvalidQuantumNumbers
      else if l < 0 \<or> l \<ge> n then Inl InvalidQuantumNumbers
      else if \<bar>m\<bar> > l then Inl InvalidQuantumNumbers
      else if n > MAX_PRINCIPAL_QUANTUM_NUMBER then Inl InvalidQuantumNumbers
      else Inr True)"

definition RADIAL_NORMALIZATION :: "(int \<times> int) \<rightharpoonup> real" where
  "RADIAL_NORMALIZATION = map_of
     [((1, 0), 2),
      ((2, 0), 1 / (2 * sqrt 2)),
      ((2, 1), 1 / (2 * sqrt 6)),
      ((3, 0), 2 / (27 * sqrt 3)),
      ((3, 1), 4 / (27 * sqrt 6)),
      ((3, 2), 2 / (81 * sqrt 30))]"

text \<open>The key \<^verbatim>\<open>'|0>'\<close> of the source ends in U+27E9, three bytes in UTF-8.\<close>

definition ket :: "string \<Rightarrow> string" where
  "ket s = ''|'' @ s @ [CHR 0xE2, CHR 0x9F, CHR 0xA9]"

record pure_state_info =
  info_theta :: real
  info_phi :: real
  info_orbital :: nlm
  info_name :: string

definition BLOCH_PURE_STATES :: "string \<rightharpoonup> pure_state_info" where
  "BLOCH_PURE_STATES = map_of
     [(ket ''0'',  \<lparr>info_theta = 0, info_phi = 0, info_orbital = (1, 0, 0), info_name = ''1s''\<rparr>),
      (ket ''1'',  \<lparr>info_theta = pi, info_phi = 0, info_orbital = (2, 0, 0), info_name = ''2s''\<rparr>),
      (ket ''+'',  \<lparr>info_theta = pi / 2, info_phi = 0, info_orbital = (2, 1, 1), info_name = ''2px''\<rparr>),
      (ket ''-'',  \<lparr>info_theta = pi / 2, info_phi = pi, info_orbital = (2, 1, - 1), info_name = ''2px*''\<rparr>),
      (ket ''+i'', \<lparr>info_theta = pi / 2, info_phi = pi / 2, info_orbital = (2, 1, 0), info_name = ''2py''\<rparr>),
      (ket ''-i'', \<lparr>info_theta = pi / 2, info_phi = 3 * pi / 2, info_orbital = (2, 1, 0), info_name = ''2py*''\<rparr>)]"

definition DEFAULT_GRID_RESOLUTION :: int where
  "DEFAULT_GRID_RESOLUTION = 64"

definition ORBITAL_EXTENT :: "int \<rightharpoonup> real" where
  "ORBITAL_EXTENT = map_of [(1, 10), (2, 20), (3, 30), (4, 40), (5, 50), (6, 60), (7, 70)]"

definition get_orbital_extent :: "int \<Rightarrow> real" where
  "get_orbital_extent n = (case ORBITAL_EXTENT n of Some e \<Rightarrow> e | None \<Rightarrow> of_int n * 10)"

subsection \<open>Gate matrices\<close>

text \<open>A 2x2 array is the pair of its rows; \<^verbatim>\<open>M / s\<close> divides every entry.\<close>

definition mat_div :: "matrix2 \<Rightarrow> complex \<Rightarrow> matrix2" where
  "mat_div M s = (case M of ((a, b), (c, d)) \<Rightarrow> ((a / s, b / s), (c / s, d / s)))"

definition PAULI_X :: matrix2 where "PAULI_X = ((0, 1), (1, 0))"
definition PAULI_Y :: matrix2 where "PAULI_Y = ((0, - \<i>), (\<i>, 0))"
definition PAULI_Z :: matrix2 where "PAULI_Z = ((1, 0), (0, - 1))"
definition IDENTITY :: matrix2 where "IDENTITY = ((1, 0), (0, 1))"
definition HADAMARD :: matrix2 where
  "HADAMARD = mat_div ((1, 1), (1, - 1)) (of_real (sqrt 2))"
definition S_GATE :: matrix2 where "S_GATE = ((1, 0), (0, \<i>))"
definition T_GATE :: matrix2 where
  "T_GATE = ((1, 0), (0, exp (\<i> * of_real pi / 4)))"

definition rotation_x :: "real \<Rightarrow> matrix2" where
  "rotation_x t = ((of_real (cos (t / 2)), - \<i> * of_real (sin (t / 2))),
                   (- \<i> * of_real (sin (t / 2)), of_real (cos (t / 2))))"

definition rotation_y :: "real \<Rightarrow> matrix2" where
  "rotation_y t = ((of_real (cos (t / 2)), of_real (- sin (t / 2))),
                   (of_real (sin (t / 2)), of_real (cos (t / 2))))"

definition rotation_z :: "real \<Rightarrow> matrix2" where
  "rotation_z t = ((exp (- \<i> * of_real t / 2), 0),
                   (0, exp (\<i> * of_real t / 2)))"

definition QUANTUM_GATES :: "string \<rightharpoonup> matrix2" where
  "QUANTUM_GATES = map_of
     [(''X'', PAULI_X), (''Y'', PAULI_Y), (''Z'', PAULI_Z), (''H'', HADAMARD),
      (''S'', S_GATE), (''T'', T_GATE), (''I'', IDENTITY)]"

section \<open>numpy and scipy primitives\<close>

text \<open>
  \<^verbatim>\<open>np.arctan2(y, x)\<close> and \<^verbatim>\<open>np.angle(z) = arctan2(z.imag, z.real)\<close> with values in
  \<open>(-pi, pi]\<close>; Python's float \<^verbatim>\<open>%\<close>, whose result takes the sign of the divisor;
  \<^verbatim>\<open>np.clip\<close>; \<^verbatim>\<open>np.linspace\<close>, which raises on a negative count.
\<close>

definition arctan2 :: "real \<Rightarrow> real \<Rightarrow> real" where
  "arctan2 y x =
     (if x > 0 then arctan (y / x)
      else if x < 0 then (if y \<ge> 0 then arctan (y / x) + pi else arctan (y / x) - pi)
      else if y > 0 then pi / 2
      else if y < 0 then - pi / 2
      else 0)"

definition angle :: "complex \<Rightarrow> real" where
  "angle z = arctan2 (Im z) (Re z)"

definition pymod :: "real \<Rightarrow> real \<Rightarrow> real" where
  "pymod x m = x - m * of_int \<lfloor>x / m\<rfloor>"

definition clip :: "real \<Rightarrow> real \<Rightarrow> real \<Rightarrow> real" where
  "clip v lo hi = min (max v lo) hi"

definition linspace :: "real \<Rightarrow> real \<Rightarrow> int \<Rightarrow> error + real list" where
  "linspace start stop num =
     (if num < 0 then Inl (NegativeSampleCount num)
      else Inr (map (\<lambda>i. start + real i * ((stop - start) / of_int (num - 1))) [0..<nat num]))"

text \<open>
  \<^verbatim>\<open>scipy.special.eval_genlaguerre(n, alpha, x)\<close>: the generalized Laguerre polynomial
  \<open>L\<^sub>n\<^sup>a(x) = \<Sum>i\<le>n. (-1)\<^sup>i (n+a choose n-i) x\<^sup>i / i!\<close>, for the natural \<open>n\<close> and \<open>a\<close> the callers
  pass after validation.
\<close>

definition eval_genlaguerre :: "nat \<Rightarrow> nat \<Rightarrow> real \<Rightarrow> real" where
  "eval_genlaguerre n a x =
     (\<Sum>i\<leftarrow>[0..<Suc n]. (- 1) ^ i * real ((n + a) choose (n - i)) * x ^ i / fact i)"

text \<open>
  The associated Legendre function \<open>P\<^sub>l\<^sup>m(x)\<close> with the Condon-Shortley phase, for
  \<open>0 \<le> m\<close>, by the upward recurrence in \<open>l\<close> from \<open>P\<^sub>m\<^sup>m(x) = (-1)\<^sup>m (2m-1)!! (1-x\<^sup>2)\<^sup>m\<^sup>/\<^sup>2\<close>.
\<close>

fun double_fact :: "nat \<Rightarrow> nat" where
  "double_fact 0 = 1"
| "double_fact (Suc 0) = 1"
| "double_fact (Suc (Suc n)) = Suc (Suc n) * double_fact n"

fun assoc_legendre :: "nat \<Rightarrow> nat \<Rightarrow> real \<Rightarrow> real" where
  "assoc_legendre m 0 x = (if m = 0 then 1 else 0)"
| "assoc_legendre m (Suc l) x =
     (if Suc l < m then 0
      else if Suc l = m then (- 1) ^ m * real (double_fact (2 * m - 1)) * sqrt (1 - x\<^sup>2) ^ m
      else if l = m then x * real (2 * m + 1) * assoc_legendre m l x
      else (x * real (2 * l + 1) * assoc_legendre m l x
            - real (l + m) * assoc_legendre m (l - 1) x) / real (Suc l - m))"

text \<open>
  \<^verbatim>\<open>scipy.special.sph_harm(m, n, theta, phi)\<close> with \<open>theta\<close> the azimuth and \<open>phi\<close> the polar
  angle: \<open>sqrt((2n+1)/(4 pi) (n-m)!/(n+m)!) exp(i m theta) P\<^sub>n\<^sup>m(cos phi)\<close>, a negative order
  through \<open>P\<^sub>n\<^sup>-\<^sup>m = (-1)\<^sup>m (n-m)!/(n+m)! P\<^sub>n\<^sup>m\<close>. The callers pass \<open>|m| \<le> n\<close>, \<open>0 \<le> n\<close>.
\<close>

definition lpmv :: "int \<Rightarrow> int \<Rightarrow> real \<Rightarrow> real" where
  "lpmv m n x =
     (if m \<ge> 0 then assoc_legendre (nat m) (nat n) x
      else (- 1) ^ nat (- m) * (fact (nat (n + m)) / fact (nat (n - m)))
           * assoc_legendre (nat (- m)) (nat n) x)"

definition sph_harm :: "int \<Rightarrow> int \<Rightarrow> real \<Rightarrow> real \<Rightarrow> complex" where
  "sph_harm m n az pol =
     of_real (sqrt ((2 * of_int n + 1) / (4 * pi) * (fact (nat (n - m)) / fact (nat (n + m)))))
       * exp (\<i> * of_int m * of_real az) * of_real (lpmv m n (cos pol))"

section \<open>hydrogen\_wavefunctions.py\<close>

definition generalized_laguerre :: "nat \<Rightarrow> nat \<Rightarrow> real \<Rightarrow> real" where
  "generalized_laguerre n a x = eval_genlaguerre n a x"

definition norm_factor :: "int \<Rightarrow> int \<Rightarrow> real" where
  "norm_factor n l =
     sqrt ((2 / of_int n) ^ 3 * fact (nat (n - l - 1)) / (2 * of_int n * fact (nat (n + l))))"

text \<open>
  \<^verbatim>\<open>radial_wavefunction\<close>: the argument is turned into an array first, so the final
  \<^verbatim>\<open>np.where(r > 0, R_nl, 0.0 if l > 0 else norm_factor)\<close> decides every input.
\<close>

definition radial_wavefunction :: "int \<Rightarrow> int \<Rightarrow> real \<Rightarrow> error + real" where
  "radial_wavefunction n l r =
     (case validate_quantum_numbers n l 0 of
        Inl e \<Rightarrow> Inl e
      | Inr _ \<Rightarrow>
          (let r_safe = (if r > 0 then r else 1 / 10 ^ 10);
               rho = 2 * r_safe / of_int n;
               exp_term = exp (- rho / 2);
               power_term = rho ^ nat l;
               laguerre_term = generalized_laguerre (nat (n - l - 1)) (nat (2 * l + 1)) rho;
               R_nl = norm_factor n l * exp_term * power_term * laguerre_term
           in Inr (if r > 0 then R_nl else (if l > 0 then 0 else norm_factor n l))))"

definition spherical_harmonic :: "int \<Rightarrow> int \<Rightarrow> real \<Rightarrow> real \<Rightarrow> bool \<Rightarrow> complex" where
  "spherical_harmonic l m theta phi real_form =
     (let Y_lm = sph_harm m l phi theta in
      if real_form \<and> m \<noteq> 0 then
        (if m > 0 then
           (let Y_lm_conj = sph_harm (- m) l phi theta;
                Y_real = (Y_lm + (- 1) powi m * cnj Y_lm_conj) / of_real (sqrt 2)
            in of_real (Re Y_real))
         else
           (let Y_lm_pos = sph_harm (- m) l phi theta;
                Y_real = (Y_lm - (- 1) powi m * cnj Y_lm_pos) / (\<i> * of_real (sqrt 2))
            in of_real (Re Y_real)))
      else Y_lm)"

definition cartesian_to_spherical :: "real \<Rightarrow> real \<Rightarrow> real \<Rightarrow> real \<times> real \<times> real" where
  "cartesian_to_spherical x y z =
     (let r = sqrt (x\<^sup>2 + y\<^sup>2 + z\<^sup>2);
          theta = arccos (clip (z / max r (1 / 10 ^ 10)) (- 1) 1);
          phi = arctan2 y x;
          phi = (if phi < 0 then phi + 2 * pi else phi)
      in (r, theta, phi))"

definition hydrogen_orbital ::
    "int \<Rightarrow> int \<Rightarrow> int \<Rightarrow> real \<Rightarrow> real \<Rightarrow> real \<Rightarrow> bool \<Rightarrow> error + complex" where
  "hydrogen_orbital n l m x y z real_form =
     (case validate_quantum_numbers n l m of
        Inl e \<Rightarrow> Inl e
      | Inr _ \<Rightarrow>
          (case cartesian_to_spherical x y z of
             (r, theta, phi) \<Rightarrow>
               (case radial_wavefunction n l r of
                  Inl e \<Rightarrow> Inl e
                | Inr R_nl \<Rightarrow>
                    Inr (of_real R_nl * spherical_harmonic l m theta phi real_form))))"

section \<open>orbital\_coefficients.py\<close>

definition bloch_to_state_vector :: "real \<Rightarrow> real \<Rightarrow> vector2" where
  "bloch_to_state_vector theta phi =
     (let alpha = of_real (cos (theta / 2));
          beta = exp (\<i> * of_real phi) * of_real (sin (theta / 2))
      in (alpha, beta))"

text \<open>
  \<^verbatim>\<open>state_vector_to_bloch\<close> with the exact quotient, arc cosine and remainder. On a zero
  norm numpy divides by zero and both angles are NaN, which no real number stands for:
  the value of this function at the zero vector is not the program's, and neither are
  its values where the floats round (a remainder that rounds to \<open>2 pi\<close>, squares that
  underflow, an arc cosine next to \<open>1\<close>).
\<close>

definition state_vector_to_bloch :: "vector2 \<Rightarrow> real \<times> real" where
  "state_vector_to_bloch state_vector =
     (case state_vector of
        (alpha, beta) \<Rightarrow>
          (let nrm = sqrt ((cmod alpha)\<^sup>2 + (cmod beta)\<^sup>2);
               alpha = alpha / of_real nrm;
               beta = beta / of_real nrm;
               theta = 2 * arccos (cmod alpha);
               phi = angle beta - angle alpha;
               phi = pymod phi (2 * pi)
           in (theta, phi)))"

definition bloch_to_orbital_coeffs :: "real \<Rightarrow> real \<Rightarrow> string \<Rightarrow> error + coeffs" where
  "bloch_to_orbital_coeffs theta phi basis =
     (case bloch_to_state_vector theta phi of
        (alpha, beta) \<Rightarrow>
          if basis = ''sp'' then
            Inr [((1, 0, 0), alpha), ((2, 0, 0), beta)]
          else if basis = ''pp'' then
            (let cos_half = cos (theta / 2);
                 sin_half = sin (theta / 2);
                 c_px = sin_half * cos phi;
                 c_py = sin_half * sin phi;
                 c_pz = cos_half
             in Inr [((2, 1, 1), of_real c_px), ((2, 1, - 1), of_real c_py),
                     ((2, 1, 0), of_real c_pz)])
          else if basis = ''sd'' then
            Inr [((1, 0, 0), alpha), ((3, 2, 0), beta)]
          else Inl (UnknownBasis basis))"

text \<open>The loop of \<^verbatim>\<open>orbital_coeffs_to_density\<close> over \<^verbatim>\<open>coeffs.items()\<close>, with the
  accumulator \<^verbatim>\<open>psi_total\<close>; a call of \<^verbatim>\<open>hydrogen_orbital\<close> that raises ends it.\<close>

fun psi_total_loop :: "coeffs \<Rightarrow> real \<Rightarrow> real \<Rightarrow> real \<Rightarrow> complex \<Rightarrow> error + complex" where
  "psi_total_loop [] x y z psi_total = Inr psi_total"
| "psi_total_loop (((n, l, m), coeff) # rest) x y z psi_total =
     (case hydrogen_orbital n l m x y z True of
        Inl e \<Rightarrow> Inl e
      | Inr psi_i \<Rightarrow> psi_total_loop rest x y z (psi_total + coeff * psi_i))"

definition orbital_coeffs_to_density :: "coeffs \<Rightarrow> real \<Rightarrow> real \<Rightarrow> real \<Rightarrow> error + real" where
  "orbital_coeffs_to_density cs x y z =
     (case psi_total_loop cs x y z 0 of
        Inl e \<Rightarrow> Inl e
      | Inr psi_total \<Rightarrow> Inr ((cmod psi_total)\<^sup>2))"

subsection \<open>Gates\<close>

text \<open>
  A gate argument is a name or an explicit 2x2 matrix. The parametrized names carry a
  float literal, read by Python's \<^verbatim>\<open>float\<close>: the parser is the parameter \<open>float_of\<close>
  (\<open>None\<close> where \<^verbatim>\<open>float\<close> raises). \<^verbatim>\<open>gate[3:-1]\<close> is \<open>butlast (drop 3 gate)\<close>.
\<close>

datatype gate = GateName string | GateMatrix matrix2

definition matvec :: "matrix2 \<Rightarrow> vector2 \<Rightarrow> vector2" where
  "matvec M v = (case M of ((a, b), (c, d)) \<Rightarrow> (case v of (x, y) \<Rightarrow> (a * x + b * y, c * x + d * y)))"

definition rotation_from_name ::
    "(string \<Rightarrow> real option) \<Rightarrow> (real \<Rightarrow> matrix2) \<Rightarrow> string \<Rightarrow> error + matrix2" where
  "rotation_from_name float_of rot g =
     (case float_of (butlast (drop 3 g)) of
        None \<Rightarrow> Inl (BadFloatLiteral (butlast (drop 3 g)))
      | Some a \<Rightarrow> Inr (rot a))"

definition gate_matrix_of :: "(string \<Rightarrow> real option) \<Rightarrow> gate \<Rightarrow> error + matrix2" where
  "gate_matrix_of float_of gate =
     (case gate of
        GateName g \<Rightarrow>
          if take 3 g = ''RX('' then rotation_from_name float_of rotation_x g
          else if take 3 g = ''RY('' then rotation_from_name float_of rotation_y g
          else if take 3 g = ''RZ('' then rotation_from_name float_of rotation_z g
          else (case QUANTUM_GATES g of
                  None \<Rightarrow> Inl (UnknownGate g)
                | Some M \<Rightarrow> Inr M)
      | GateMatrix M \<Rightarrow> Inr M)"

definition apply_gate_to_state ::
    "(string \<Rightarrow> real option) \<Rightarrow> vector2 \<Rightarrow> gate \<Rightarrow> error + vector2" where
  "apply_gate_to_state float_of state_vector gate =
     (case gate_matrix_of float_of gate of
        Inl e \<Rightarrow> Inl e
      | Inr gate_matrix \<Rightarrow> Inr (matvec gate_matrix state_vector))"

definition apply_gate_to_bloch ::
    "(string \<Rightarrow> real option) \<Rightarrow> real \<Rightarrow> real \<Rightarrow> gate \<Rightarrow> error + real \<times> real" where
  "apply_gate_to_bloch float_of theta phi gate =
     (let state = bloch_to_state_vector theta phi in
      case apply_gate_to_state float_of state gate of
        Inl e \<Rightarrow> Inl e
      | Inr new_state \<Rightarrow> Inr (state_vector_to_bloch new_state))"

section \<open>bloch\_orbital\_mapper.py\<close>

subsection \<open>The density on a lattice\<close>

text \<open>
  A 3-D array is a list of lists of lists. \<^verbatim>\<open>np.meshgrid(x, y, z, indexing='ij')\<close>
  followed by a vectorised function is \<open>grid3\<close>: entry \<open>[i][j][k]\<close> is the function at
  \<open>(x[i], y[j], z[k])\<close>. An array carries its dtype, \<^verbatim>\<open>float64\<close> or \<^verbatim>\<open>complex128\<close>: a
  product is complex as soon as one factor is, and the in-place \<^verbatim>\<open>+=\<close> on an array
  refuses to store a complex term into a \<^verbatim>\<open>float64\<close> array (numpy's casting error).
\<close>

datatype dtype = Float64 | Complex128

type_synonym 'a array3 = "'a list list list"
type_synonym typed_coeffs = "(nlm \<times> complex \<times> dtype) list"

definition result_dtype :: "dtype \<Rightarrow> dtype \<Rightarrow> dtype" where
  "result_dtype a b = (if a = Complex128 \<or> b = Complex128 then Complex128 else Float64)"

definition grid3 :: "(real \<Rightarrow> real \<Rightarrow> real \<Rightarrow> 'a) \<Rightarrow> real list \<Rightarrow> real list \<Rightarrow> real list \<Rightarrow> 'a array3" where
  "grid3 f xs ys zs = map (\<lambda>x. map (\<lambda>y. map (\<lambda>z. f x y z) zs) ys) xs"

definition map3 :: "('a \<Rightarrow> 'b) \<Rightarrow> 'a array3 \<Rightarrow> 'b array3" where
  "map3 f A = map (map (map f)) A"

definition add3 :: "complex array3 \<Rightarrow> complex array3 \<Rightarrow> complex array3" where
  "add3 A B = map2 (map2 (map2 (+))) A B"

fun sequence :: "(error + 'a) list \<Rightarrow> error + 'a list" where
  "sequence [] = Inr []"
| "sequence (r # rs) =
     (case r of
        Inl e \<Rightarrow> Inl e
      | Inr v \<Rightarrow> (case sequence rs of Inl e \<Rightarrow> Inl e | Inr vs \<Rightarrow> Inr (v # vs)))"

definition sequence3 :: "(error + 'a) array3 \<Rightarrow> error + 'a array3" where
  "sequence3 G = sequence (map (\<lambda>plane. sequence (map sequence plane)) G)"

text \<open>
  \<^verbatim>\<open>hydrogen_orbital\<close> on coordinate arrays with \<^verbatim>\<open>real_form=True\<close>: the quantum numbers
  are validated once, the values are the scalar function at each lattice point, and the
  array is \<^verbatim>\<open>float64\<close> for \<open>m \<noteq> 0\<close> (the real part is taken) and \<^verbatim>\<open>complex128\<close> for
  \<open>m = 0\<close> (the harmonic of scipy is returned as it is).
\<close>

definition hydrogen_orbital_grid ::
    "int \<Rightarrow> int \<Rightarrow> int \<Rightarrow> real list \<Rightarrow> real list \<Rightarrow> real list \<Rightarrow> error + dtype \<times> complex array3" where
  "hydrogen_orbital_grid n l m xs ys zs =
     (case validate_quantum_numbers n l m of
        Inl e \<Rightarrow> Inl e
      | Inr _ \<Rightarrow>
          (case sequence3 (grid3 (\<lambda>x y z. hydrogen_orbital n l m x y z True) xs ys zs) of
             Inl e \<Rightarrow> Inl e
           | Inr psi \<Rightarrow> Inr (if m = 0 then Complex128 else Float64, psi)))"

text \<open>
  The loop of \<^verbatim>\<open>orbital_coeffs_to_density\<close> on arrays. \<^verbatim>\<open>psi_total\<close> starts as the Python
  float \<open>0.0\<close>; the first \<^verbatim>\<open>+=\<close> rebinds it to a new array of the dtype of the term, and
  every later \<^verbatim>\<open>+=\<close> adds in place. Each coefficient comes with its dtype.
\<close>

datatype accumulator = PyFloat | NdArray dtype "complex array3"

fun psi_total_grid_loop ::
    "typed_coeffs \<Rightarrow> real list \<Rightarrow> real list \<Rightarrow> real list \<Rightarrow> accumulator \<Rightarrow> error + accumulator" where
  "psi_total_grid_loop [] xs ys zs psi_total = Inr psi_total"
| "psi_total_grid_loop (((n, l, m), coeff, coeff_dtype) # rest) xs ys zs psi_total =
     (case hydrogen_orbital_grid n l m xs ys zs of
        Inl e \<Rightarrow> Inl e
      | Inr (psi_dtype, psi_i) \<Rightarrow>
          (let term_dtype = result_dtype coeff_dtype psi_dtype;
               term = map3 (\<lambda>p. coeff * p) psi_i
           in case psi_total of
                PyFloat \<Rightarrow> psi_total_grid_loop rest xs ys zs (NdArray term_dtype term)
              | NdArray dt v \<Rightarrow>
                  if dt = Float64 \<and> term_dtype = Complex128 then Inl CastError
                  else psi_total_grid_loop rest xs ys zs (NdArray dt (add3 v term))))"

text \<open>
  The result \<^verbatim>\<open>np.abs(psi_total) ** 2\<close> is an array, or the scalar \<open>0.0\<close> when the
  map is empty.
\<close>

datatype density = ScalarDensity real | ArrayDensity "real array3"

definition orbital_coeffs_to_density_grid ::
    "typed_coeffs \<Rightarrow> real list \<Rightarrow> real list \<Rightarrow> real list \<Rightarrow> error + density" where
  "orbital_coeffs_to_density_grid cs xs ys zs =
     (case psi_total_grid_loop cs xs ys zs PyFloat of
        Inl e \<Rightarrow> Inl e
      | Inr PyFloat \<Rightarrow> Inr (ScalarDensity 0)
      | Inr (NdArray dt v) \<Rightarrow> Inr (ArrayDensity (map3 (\<lambda>t. (cmod t)\<^sup>2) v)))"

subsection \<open>The class \<^verbatim>\<open>BlochOrbitalState\<close>\<close>

text \<open>
  The cached value is the tuple \<^verbatim>\<open>(x_grid, y_grid, z_grid, density_grid)\<close>.
\<close>

record grid =
  x_grid :: "real array3"
  y_grid :: "real array3"
  z_grid :: "real array3"
  density_grid :: density

fun max_of :: "int list \<Rightarrow> error + int" where
  "max_of [] = Inl EmptySequence"
| "max_of (x # xs) = Inr (fold max xs x)"

text \<open>
  The fields of the object. The values of one coefficient map share their dtype: the
  \<open>pp\<close> branch of \<^verbatim>\<open>bloch_to_orbital_coeffs\<close> stores products of numpy floats, the
  other two branches store the entries of the complex state vector. The field
  \<open>p_coeffs_dtype\<close> keeps that dtype beside the values.
\<close>

definition orbital_coeffs_dtype :: "string \<Rightarrow> dtype" where
  "orbital_coeffs_dtype bs = (if bs = ''pp'' then Float64 else Complex128)"

definition with_dtype :: "dtype \<Rightarrow> coeffs \<Rightarrow> typed_coeffs" where
  "with_dtype dt cs = map (\<lambda>(k, c). (k, c, dt)) cs"

record bloch_orbital_state =
  basis :: string
  p_theta :: real
  p_phi :: real
  p_state_vector :: vector2
  p_orbital_coeffs :: coeffs
  p_coeffs_dtype :: dtype
  p_density_cache :: "grid option"

text \<open>
  A method returns its result, or the error it raised, together with the object as the
  call left it: the assignments made before a \<^verbatim>\<open>raise\<close> stay.
\<close>

definition set_bloch_state ::
    "bloch_orbital_state \<Rightarrow> real \<Rightarrow> real \<Rightarrow> (error + unit) \<times> bloch_orbital_state" where
  "set_bloch_state st theta phi =
     (let st = st\<lparr>p_theta := theta, p_phi := phi,
                  p_state_vector := bloch_to_state_vector theta phi\<rparr>
      in case bloch_to_orbital_coeffs theta phi (basis st) of
           Inl e \<Rightarrow> (Inl e, st)
         | Inr cs \<Rightarrow> (Inr (), st\<lparr>p_orbital_coeffs := cs,
                                  p_coeffs_dtype := orbital_coeffs_dtype (basis st),
                                  p_density_cache := None\<rparr>))"

text \<open>The constructor; the empty dictionary it starts from has no values, and the dtype
  recorded for it is never read.\<close>

definition BlochOrbitalState :: "real \<Rightarrow> real \<Rightarrow> string \<Rightarrow> error + bloch_orbital_state" where
  "BlochOrbitalState theta phi bs =
     (let st = \<lparr>basis = bs, p_theta = 0, p_phi = 0, p_state_vector = (1, 0),
                p_orbital_coeffs = [], p_coeffs_dtype = Complex128, p_density_cache = None\<rparr>
      in case set_bloch_state st theta phi of
           (Inl e, _) \<Rightarrow> Inl e
         | (Inr _, st) \<Rightarrow> Inr st)"

definition set_state_vector ::
    "bloch_orbital_state \<Rightarrow> vector2 \<Rightarrow> (error + unit) \<times> bloch_orbital_state" where
  "set_state_vector st sv =
     (let nrm = sqrt ((cmod (fst sv))\<^sup>2 + (cmod (snd sv))\<^sup>2);
          sv = (fst sv / of_real nrm, snd sv / of_real nrm);
          st = st\<lparr>p_state_vector := sv\<rparr>;
          (theta, phi) = state_vector_to_bloch sv;
          st = st\<lparr>p_theta := theta, p_phi := phi\<rparr>
      in case bloch_to_orbital_coeffs (p_theta st) (p_phi st) (basis st) of
           Inl e \<Rightarrow> (Inl e, st)
         | Inr cs \<Rightarrow> (Inr (), st\<lparr>p_orbital_coeffs := cs,
                                  p_coeffs_dtype := orbital_coeffs_dtype (basis st),
                                  p_density_cache := None\<rparr>))"

definition set_pure_state ::
    "bloch_orbital_state \<Rightarrow> string \<Rightarrow> (error + unit) \<times> bloch_orbital_state" where
  "set_pure_state st state_name =
     (case BLOCH_PURE_STATES state_name of
        None \<Rightarrow> (Inl (UnknownNamedState state_name), st)
      | Some state_info \<Rightarrow> set_bloch_state st (info_theta state_info) (info_phi state_info))"

definition apply_gate ::
    "(string \<Rightarrow> real option) \<Rightarrow> bloch_orbital_state \<Rightarrow> gate \<Rightarrow> (error + unit) \<times> bloch_orbital_state" where
  "apply_gate float_of st gate_type =
     (case apply_gate_to_bloch float_of (p_theta st) (p_phi st) gate_type of
        Inl e \<Rightarrow> (Inl e, st)
      | Inr (new_theta, new_phi) \<Rightarrow> set_bloch_state st new_theta new_phi)"

text \<open>
  \<^verbatim>\<open>state.basis = b\<close>: \<^verbatim>\<open>basis\<close> is a plain public attribute of the class (assigned in
  \<^verbatim>\<open>__init__\<close>, listed among its attributes, with no property and no setter), so
  the assignment stores the name and runs nothing else.
\<close>

definition assign_basis :: "bloch_orbital_state \<Rightarrow> string \<Rightarrow> bloch_orbital_state" where
  "assign_basis st b = st\<lparr>basis := b\<rparr>"

text \<open>
  \<^verbatim>\<open>calculate_density_grid\<close>. \<open>resample_density_grid\<close> is the body after the cache
  test: the defaults, the lattice, the density, and the store into the cache.
\<close>

definition resample_density_grid ::
    "bloch_orbital_state \<Rightarrow> int option \<Rightarrow> real option \<Rightarrow> (error + grid) \<times> bloch_orbital_state" where
  "resample_density_grid st resolution extent =
     (let resolution = (case resolution of None \<Rightarrow> DEFAULT_GRID_RESOLUTION | Some r \<Rightarrow> r) in
      case (case extent of
              Some e \<Rightarrow> Inr e
            | None \<Rightarrow>
                (case max_of (map (\<lambda>(k, c). fst k) (p_orbital_coeffs st)) of
                   Inl e \<Rightarrow> Inl e
                 | Inr max_n \<Rightarrow> Inr (get_orbital_extent max_n))) of
        Inl e \<Rightarrow> (Inl e, st)
      | Inr extent \<Rightarrow>
          (case linspace (- extent) extent resolution of
             Inl e \<Rightarrow> (Inl e, st)
           | Inr x \<Rightarrow>
               (case orbital_coeffs_to_density_grid
                       (with_dtype (p_coeffs_dtype st) (p_orbital_coeffs st)) x x x of
                  Inl e \<Rightarrow> (Inl e, st)
                | Inr density \<Rightarrow>
                    (let g = \<lparr>x_grid = grid3 (\<lambda>x y z. x) x x x,
                              y_grid = grid3 (\<lambda>x y z. y) x x x,
                              z_grid = grid3 (\<lambda>x y z. z) x x x,
                              density_grid = density\<rparr>
                     in (Inr g, st\<lparr>p_density_cache := Some g\<rparr>)))))"

definition calculate_density_grid ::
    "bloch_orbital_state \<Rightarrow> int option \<Rightarrow> real option \<Rightarrow> bool \<Rightarrow> (error + grid) \<times> bloch_orbital_state" where
  "calculate_density_grid st resolution extent use_cache =
     (case (if use_cache then p_density_cache st else None) of
        Some g \<Rightarrow> (Inr g, st)
      | None \<Rightarrow> resample_density_grid st resolution extent)"

section \<open>Notions used in the statements\<close>

text \<open>
  A reader of float literals that accepts none (every \<^verbatim>\<open>float(...)\<close> raises): enough
  for the gate names that carry no parameter.
\<close>

definition reject_float :: "string \<Rightarrow> real option" where
  "reject_float s = None"

text \<open>
  The derived data of a state are fresh when the stored coefficients are the ones the
  stored angles and basis map to, and no density grid is cached.
\<close>

definition refreshed :: "bloch_orbital_state \<Rightarrow> bool" where
  "refreshed st \<longleftrightarrow>
     bloch_to_orbital_coeffs (p_theta st) (p_phi st) (basis st) = Inr (p_orbital_coeffs st)
     \<and> p_density_cache st = None"

text \<open>
  The object that \<^verbatim>\<open>BlochOrbitalState(0.0, 0.0, 'sp')\<close> constructs, written out.
\<close>

definition zero_state_sp :: bloch_orbital_state where
  "zero_state_sp =
     \<lparr>basis = ''sp'', p_theta = 0, p_phi = 0, p_state_vector = (1, 0),
      p_orbital_coeffs = [((1, 0, 0), 1), ((2, 0, 0), 0)], p_coeffs_dtype = Complex128,
      p_density_cache = None\<rparr>"

text \<open>
  That object after \<^verbatim>\<open>calculate_density_grid(resolution=1, extent=1.0)\<close>: it holds a
  cached grid of one lattice point.
\<close>

definition sampled_zero_state :: bloch_orbital_state where
  "sampled_zero_state = snd (calculate_density_grid zero_state_sp (Some 1) (Some 1) True)"

text \<open>The resolution a call samples at: the argument, or the module default.\<close>

definition resolved_resolution :: "int option \<Rightarrow> int" where
  "resolved_resolution resolution =
     (case resolution of None \<Rightarrow> DEFAULT_GRID_RESOLUTION | Some r \<Rightarrow> r)"

text \<open>
  The grid a sampling call is to produce, written from the specification: the lattice
  of \<open>resolution\<close> equidistant points from \<open>-extent\<close> to \<open>extent\<close> on each axis, the extent
  defaulting to the table value of the largest principal quantum number present, and at
  each lattice point the squared modulus of the coherent sum \<open>\<Sum> c\<^sub>i \<psi>\<^sub>i\<close>.
\<close>

definition psi_value :: "int \<Rightarrow> int \<Rightarrow> int \<Rightarrow> real \<Rightarrow> real \<Rightarrow> real \<Rightarrow> complex" where
  "psi_value n l m x y z = (case hydrogen_orbital n l m x y z True of Inr p \<Rightarrow> p | Inl e \<Rightarrow> 0)"

definition coherent_density :: "coeffs \<Rightarrow> real \<Rightarrow> real \<Rightarrow> real \<Rightarrow> real" where
  "coherent_density cs x y z = (cmod (\<Sum>((n, l, m), c)\<leftarrow>cs. c * psi_value n l m x y z))\<^sup>2"

definition lattice_axis :: "real \<Rightarrow> int \<Rightarrow> real list" where
  "lattice_axis e r = map (\<lambda>i. - e + real i * (2 * e / of_int (r - 1))) [0..<nat r]"

definition resolved_extent :: "coeffs \<Rightarrow> real option \<Rightarrow> real" where
  "resolved_extent cs extent =
     (case extent of
        Some e \<Rightarrow> e
      | None \<Rightarrow> get_orbital_extent (Max (set (map (\<lambda>(k, c). fst k) cs))))"

definition expected_grid :: "coeffs \<Rightarrow> int option \<Rightarrow> real option \<Rightarrow> grid" where
  "expected_grid cs resolution extent =
     (let X = lattice_axis (resolved_extent cs extent) (resolved_resolution resolution)
      in \<lparr>x_grid = grid3 (\<lambda>x y z. x) X X X,
          y_grid = grid3 (\<lambda>x y z. y) X X X,
          z_grid = grid3 (\<lambda>x y z. z) X X X,
          density_grid = ArrayDensity (grid3 (coherent_density cs) X X X)\<rparr>)"

text \<open>The quantum numbers that pass \<^verbatim>\<open>validate_quantum_numbers\<close>.\<close>

definition valid_nlm :: "int \<Rightarrow> int \<Rightarrow> int \<Rightarrow> bool" where
  "valid_nlm n l m \<longleftrightarrow> 1 \<le> n \<and> n \<le> 7 \<and> 0 \<le> l \<and> l < n \<and> \<bar>m\<bar> \<le> l"

section \<open>Auxiliary facts about the primitives\<close>

lemma pymod_range: "0 < m \<Longrightarrow> 0 \<le> pymod x m \<and> pymod x m < m"
proof -
  assume m: "0 < m"
  define k where "k = \<lfloor>x / m\<rfloor>"
  have a: "of_int k \<le> x / m" unfolding k_def by (rule of_int_floor_le)
  have b: "x / m < of_int k + 1" unfolding k_def by (rule real_of_int_floor_add_one_gt)
  from a m have a': "of_int k * m \<le> x" by (simp add: le_divide_eq)
  from b m have b': "x < (of_int k + 1) * m" by (simp add: divide_less_eq)
  from a' b' show ?thesis unfolding pymod_def k_def [symmetric] by (simp add: algebra_simps)
qed



lemma sgn_complex_parts: "z \<noteq> 0 \<Longrightarrow> sgn z = Complex (Re z / cmod z) (Im z / cmod z)"
  by (simp add: complex_eq_iff)

lemma sqrt_aux_pos: "0 < x \<Longrightarrow> sqrt (1 + (y / x)\<^sup>2) = sqrt (x\<^sup>2 + y\<^sup>2) / x"
proof -
  assume x: "0 < x"
  have "1 + (y / x)\<^sup>2 = (x\<^sup>2 + y\<^sup>2) / x\<^sup>2" using x by (simp add: field_simps power2_eq_square)
  then show ?thesis using x by (simp add: real_sqrt_divide)
qed

lemma sqrt_aux_neg: "x < 0 \<Longrightarrow> sqrt (1 + (y / x)\<^sup>2) = sqrt (x\<^sup>2 + y\<^sup>2) / (- x)"
  using sqrt_aux_pos [of "- x" y] by simp

lemma angle_eq_Arg: "angle z = Arg z"
proof (cases "z = 0")
  case True
  then show ?thesis by (simp add: angle_def arctan2_def Arg_zero)
next
  case False
  define x where "x = Re z"
  define y where "y = Im z"
  have nz: "x \<noteq> 0 \<or> y \<noteq> 0" using False by (auto simp: x_def y_def complex_eq_iff)
  have cm: "cmod z = sqrt (x\<^sup>2 + y\<^sup>2)" by (simp add: cmod_def x_def y_def)
  have cpos: "0 < sqrt (x\<^sup>2 + y\<^sup>2)" using nz by (auto simp: sum_power2_gt_zero_iff)
  have sg: "sgn z = Complex (x / sqrt (x\<^sup>2 + y\<^sup>2)) (y / sqrt (x\<^sup>2 + y\<^sup>2))"
    using sgn_complex_parts [OF False] by (simp add: cm x_def y_def)
  have "sgn z = cis (arctan2 y x) \<and> - pi < arctan2 y x \<and> arctan2 y x \<le> pi"
  proof -
    consider (pos) "0 < x" | (negp) "x < 0" "0 \<le> y" | (negn) "x < 0" "y < 0"
      | (zp) "x = 0" "0 < y" | (zn) "x = 0" "y < 0"
      using nz by linarith
    then show ?thesis
    proof cases
      case pos
      have b: "- (pi / 2) < arctan (y / x)" "arctan (y / x) < pi / 2"
        by (rule arctan_lbound, rule arctan_ubound)
      have "cis (arctan (y / x)) = Complex (x / sqrt (x\<^sup>2 + y\<^sup>2)) (y / sqrt (x\<^sup>2 + y\<^sup>2))"
        using pos by (simp add: complex_eq_iff cos_arctan sin_arctan sqrt_aux_pos)
      moreover have "- pi < arctan (y / x) \<and> arctan (y / x) \<le> pi" using b pi_gt_zero by linarith
      ultimately show ?thesis using pos sg by (simp add: arctan2_def)
    next
      case negp
      have b: "- (pi / 2) < arctan (y / x)" by (rule arctan_lbound)
      have "y / x \<le> 0" using negp by (simp add: divide_nonneg_neg)
      then have b2: "arctan (y / x) \<le> 0" by simp
      have "cis (arctan (y / x) + pi) = Complex (x / sqrt (x\<^sup>2 + y\<^sup>2)) (y / sqrt (x\<^sup>2 + y\<^sup>2))"
        using negp by (simp add: complex_eq_iff cos_arctan sin_arctan sqrt_aux_neg)
      moreover have "- pi < arctan (y / x) + pi \<and> arctan (y / x) + pi \<le> pi" using b b2 pi_gt_zero by linarith
      ultimately show ?thesis using negp sg by (simp only: arctan2_def) simp
    next
      case negn
      have b: "arctan (y / x) < pi / 2" by (rule arctan_ubound)
      have "0 < y / x" using negn by (simp add: divide_neg_neg)
      then have b2: "0 < arctan (y / x)" by simp
      have "cis (arctan (y / x) - pi) = Complex (x / sqrt (x\<^sup>2 + y\<^sup>2)) (y / sqrt (x\<^sup>2 + y\<^sup>2))"
        using negn by (simp add: complex_eq_iff cos_arctan sin_arctan sqrt_aux_neg cos_diff sin_diff)
      moreover have "- pi < arctan (y / x) - pi \<and> arctan (y / x) - pi \<le> pi" using b b2 pi_gt_zero by linarith
      ultimately show ?thesis using negn sg by (simp only: arctan2_def) simp
    next
      case zp
      have e: "arctan2 y x = pi / 2" using zp by (simp add: arctan2_def)
      have "sgn z = Complex 0 1" using sg zp by simp
      also have "Complex 0 1 = cis (pi / 2)" by (simp add: complex_eq_iff)
      finally have s: "sgn z = cis (pi / 2)" .
      have r: "- pi < pi / 2 \<and> pi / 2 \<le> pi" using pi_gt_zero by linarith
      show ?thesis unfolding e using s r by blast
    next
      case zn
      have e: "arctan2 y x = - pi / 2" using zn by (simp add: arctan2_def)
      have "sgn z = Complex 0 (- 1)" using sg zn by simp
      also have "Complex 0 (- 1) = cis (- pi / 2)" by (simp add: complex_eq_iff)
      finally have s: "sgn z = cis (- pi / 2)" .
      have r: "- pi < - pi / 2 \<and> - pi / 2 \<le> pi" using pi_gt_zero by linarith
      show ?thesis unfolding e using s r by blast
    qed
  qed
  then have "Arg z = arctan2 y x" by (intro cis_Arg_unique) auto
  then show ?thesis by (simp add: angle_def x_def y_def)
qed

lemma bloch_to_state_vector_norm:
  "(cmod (fst (bloch_to_state_vector theta phi)))\<^sup>2 + (cmod (snd (bloch_to_state_vector theta phi)))\<^sup>2 = 1"
  by (simp add: bloch_to_state_vector_def cis_conv_exp [symmetric] norm_mult power_mult_distrib)

lemma bloch_to_state_vector_cis:
  "bloch_to_state_vector theta phi = (of_real (cos (theta / 2)), cis phi * of_real (sin (theta / 2)))"
  by (simp add: bloch_to_state_vector_def cis_conv_exp [symmetric])

lemma Arg_of_real_nonneg: "0 \<le> c \<Longrightarrow> Arg (of_real c) = 0"
proof (cases "c = 0")
  case True
  then show ?thesis by (simp add: Arg_zero)
next
  case False
  assume "0 \<le> c"
  with False have "0 < c" by simp
  then have "sgn (complex_of_real c) = cis 0" by (simp add: sgn_eq complex_eq_iff)
  then show ?thesis using pi_gt_zero by (intro cis_Arg_unique) auto
qed

lemma Arg_of_real_neg: "c < 0 \<Longrightarrow> Arg (of_real c) = pi"
proof -
  assume "c < 0"
  then have "sgn (complex_of_real c) = cis pi" by (simp add: sgn_eq complex_eq_iff)
  then show ?thesis using pi_gt_zero by (intro cis_Arg_unique) auto
qed






section \<open>Auxiliary facts about the Bloch maps\<close>

lemma cmod_div_norm_le:
  assumes "(a, b) \<noteq> (0, 0)"
  shows "0 \<le> cmod (a / of_real (sqrt ((cmod a)\<^sup>2 + (cmod b)\<^sup>2)))
       \<and> cmod (a / of_real (sqrt ((cmod a)\<^sup>2 + (cmod b)\<^sup>2))) \<le> 1"
proof -
  define n where "n = sqrt ((cmod a)\<^sup>2 + (cmod b)\<^sup>2)"
  have "0 < (cmod a)\<^sup>2 + (cmod b)\<^sup>2" using assms by (auto simp: sum_power2_gt_zero_iff)
  then have npos: "0 < n" by (simp add: n_def)
  have "(cmod a)\<^sup>2 \<le> (cmod a)\<^sup>2 + (cmod b)\<^sup>2" by simp
  then have "sqrt ((cmod a)\<^sup>2) \<le> n" unfolding n_def by (rule real_sqrt_le_mono)
  then have "cmod a \<le> n" by simp
  then have "cmod a / n \<le> 1" using npos by (simp add: divide_le_eq)
  then show ?thesis using npos unfolding n_def [symmetric] by (simp add: norm_divide)
qed

text \<open>
  Over the reals the angles of a vector other than zero lie in \<open>[0, pi]\<close> and \<open>[0, 2 pi)\<close>.
  This is a fact of the exact formulas only: in floats the remainder \<^verbatim>\<open>phi % (2 * np.pi)\<close>
  can round to \<open>2 pi\<close> itself, and the squares of a tiny vector underflow to a zero norm.
\<close>

lemma state_vector_to_bloch_bounds:
  assumes "(a, b) \<noteq> (0, 0)"
  shows "0 \<le> fst (state_vector_to_bloch (a, b)) \<and> fst (state_vector_to_bloch (a, b)) \<le> pi
       \<and> 0 \<le> snd (state_vector_to_bloch (a, b)) \<and> snd (state_vector_to_bloch (a, b)) < 2 * pi"
proof -
  let ?q = "cmod (a / of_real (sqrt ((cmod a)\<^sup>2 + (cmod b)\<^sup>2)))"
  have q: "0 \<le> ?q \<and> ?q \<le> 1" using cmod_div_norm_le [OF assms] .
  have q1: "- 1 \<le> ?q" by (rule order_trans [of _ 0]) simp_all
  have q2: "?q \<le> 1" using q by blast
  have "0 \<le> arccos ?q" using q1 q2 by (rule arccos_lbound)
  moreover have "arccos ?q \<le> pi / 2" using q2 by (intro arccos_le_pi2) simp_all
  moreover have "0 \<le> pymod x (2 * pi) \<and> pymod x (2 * pi) < 2 * pi" for x
    using pi_gt_zero by (intro pymod_range) auto
  ultimately show ?thesis by (simp add: state_vector_to_bloch_def Let_def)
qed

lemma coeffs_sum_sp:
  "bloch_to_orbital_coeffs theta phi ''sp'' = Inr cs \<Longrightarrow> (\<Sum>(k, c)\<leftarrow>cs. (cmod c)\<^sup>2) = 1"
  by (auto simp: bloch_to_orbital_coeffs_def bloch_to_state_vector_cis norm_mult power_mult_distrib)

lemma coeffs_sum_sd:
  "bloch_to_orbital_coeffs theta phi ''sd'' = Inr cs \<Longrightarrow> (\<Sum>(k, c)\<leftarrow>cs. (cmod c)\<^sup>2) = 1"
  by (auto simp: bloch_to_orbital_coeffs_def bloch_to_state_vector_cis norm_mult power_mult_distrib)

lemma pp_sum: "((s::real) * c)\<^sup>2 + (s * d)\<^sup>2 + e\<^sup>2 = s\<^sup>2 * (c\<^sup>2 + d\<^sup>2) + e\<^sup>2"
  by (simp add: algebra_simps power2_eq_square)

lemma coeffs_sum_pp:
  assumes "bloch_to_orbital_coeffs theta phi ''pp'' = Inr cs"
  shows "(\<Sum>(k, c)\<leftarrow>cs. (cmod c)\<^sup>2) = 1"
proof -
  have e: "(sin (theta / 2) * cos phi)\<^sup>2 + (sin (theta / 2) * sin phi)\<^sup>2 + (cos (theta / 2))\<^sup>2 = 1"
    by (simp add: pp_sum)
  have cs: "cs = [((2, 1, 1), of_real (sin (theta / 2) * cos phi)),
                  ((2, 1, - 1), of_real (sin (theta / 2) * sin phi)),
                  ((2, 1, 0), of_real (cos (theta / 2)))]"
    using assms by (auto simp: bloch_to_orbital_coeffs_def Let_def split: prod.splits)
  have "(\<Sum>(k, c)\<leftarrow>cs. (cmod c)\<^sup>2)
      = (sin (theta / 2) * cos phi)\<^sup>2 + (sin (theta / 2) * sin phi)\<^sup>2 + (cos (theta / 2))\<^sup>2"
    unfolding cs by (simp only: list.map sum_list.Cons sum_list.Nil prod.case norm_of_real power2_abs)
  then show ?thesis using e by simp
qed

lemma coeffs_returns:
  "b \<in> {''sp'', ''pp'', ''sd''} \<Longrightarrow> \<exists>cs. bloch_to_orbital_coeffs theta phi b = Inr cs"
  by (auto simp: bloch_to_orbital_coeffs_def Let_def split: prod.splits)

section \<open>Bloch angles and state vectors\<close>

text \<open>
  Claim C7. For all angles, \<^verbatim>\<open>bloch_to_state_vector(theta, phi)\<close> is the pair
  \<open>(cos(theta/2), e\<^sup>i\<^sup>p\<^sup>h\<^sup>i sin(theta/2))\<close>, and this pair has unit norm; at \<open>(pi/2, 0)\<close>
  both components have modulus \<open>1 / sqrt 2\<close> (exactly, hence within \<open>1e-10\<close>).
\<close>

theorem bloch_to_state_vector_unit:
  "bloch_to_state_vector theta phi
     = (of_real (cos (theta / 2)), cis phi * of_real (sin (theta / 2)))
   \<and> (cmod (fst (bloch_to_state_vector theta phi)))\<^sup>2
       + (cmod (snd (bloch_to_state_vector theta phi)))\<^sup>2 = 1
   \<and> \<bar>cmod (fst (bloch_to_state_vector (pi / 2) 0)) - 1 / sqrt 2\<bar> \<le> 1 / 10 ^ 10
   \<and> \<bar>cmod (snd (bloch_to_state_vector (pi / 2) 0)) - 1 / sqrt 2\<bar> \<le> 1 / 10 ^ 10"
proof -
  have "cmod (fst (bloch_to_state_vector (pi / 2) 0)) = 1 / sqrt 2"
    by (simp add: bloch_to_state_vector_cis cos_45 real_div_sqrt)
  moreover have "cmod (snd (bloch_to_state_vector (pi / 2) 0)) = 1 / sqrt 2"
    by (simp add: bloch_to_state_vector_cis sin_45 real_div_sqrt)
  ultimately show ?thesis
    using bloch_to_state_vector_norm [of theta phi] bloch_to_state_vector_cis [of theta phi]
    by simp
qed




section \<open>Orbital coefficients\<close>

text \<open>
  Claim C9. \<^verbatim>\<open>bloch_to_orbital_coeffs(theta, phi, basis)\<close> raises exactly when \<open>basis\<close> is
  none of \<open>sp\<close>, \<open>pp\<close>, \<open>sd\<close>, and then with the unknown-basis error; for a supported
  basis it returns a coefficient map for every \<open>theta\<close> and \<open>phi\<close>.
\<close>

theorem bloch_to_orbital_coeffs_raises_iff:
  "((\<exists>e. bloch_to_orbital_coeffs theta phi b = Inl e) \<longleftrightarrow> b \<notin> {''sp'', ''pp'', ''sd''})
   \<and> ((\<exists>cs. bloch_to_orbital_coeffs theta phi b = Inr cs) \<longleftrightarrow> b \<in> {''sp'', ''pp'', ''sd''})
   \<and> (bloch_to_orbital_coeffs theta phi b = Inl (UnknownBasis b) \<longleftrightarrow> b \<notin> {''sp'', ''pp'', ''sd''})"
  by (auto simp: bloch_to_orbital_coeffs_def Let_def split: prod.splits)

theorem bloch_to_orbital_coeffs_raises_iff_witness:
  "(\<exists>cs. bloch_to_orbital_coeffs 1 2 ''pp'' = Inr cs)
   \<and> bloch_to_orbital_coeffs 1 2 ''ps'' = Inl (UnknownBasis ''ps'')"
  using bloch_to_orbital_coeffs_raises_iff [of 1 2 "''pp''"]
        bloch_to_orbital_coeffs_raises_iff [of 1 2 "''ps''"]
  by simp

text \<open>
  Claim C6. For each of the three bases and all angles (in particular those of the Bloch
  ranges) the coefficients returned by \<^verbatim>\<open>bloch_to_orbital_coeffs\<close> satisfy
  \<open>\<Sum> |c\<^sub>i|\<^sup>2 = 1\<close>; for \<open>sp\<close> at \<open>theta = pi/2\<close>, \<open>phi = 0\<close> the orbitals are 1s and 2s, each with
  probability \<open>1/2\<close> (exactly, hence within \<open>1e-10\<close>).
\<close>

theorem bloch_to_orbital_coeffs_normalized:
  "(b \<in> {''sp'', ''pp'', ''sd''} \<longrightarrow>
      (\<exists>cs. bloch_to_orbital_coeffs theta phi b = Inr cs \<and> (\<Sum>(k, c)\<leftarrow>cs. (cmod c)\<^sup>2) = 1))
   \<and> (\<exists>cs. bloch_to_orbital_coeffs (pi / 2) 0 ''sp'' = Inr cs
         \<and> map (\<lambda>(k, c). (k, (cmod c)\<^sup>2)) cs = [((1, 0, 0), 1 / 2), ((2, 0, 0), 1 / 2)])"
proof -
  have "\<exists>cs. bloch_to_orbital_coeffs theta phi b = Inr cs \<and> (\<Sum>(k, c)\<leftarrow>cs. (cmod c)\<^sup>2) = 1"
    if hb: "b \<in> {''sp'', ''pp'', ''sd''}"
  proof -
    obtain cs where cs: "bloch_to_orbital_coeffs theta phi b = Inr cs"
      using coeffs_returns [of b theta phi] hb by blast
    have "(\<Sum>(k, c)\<leftarrow>cs. (cmod c)\<^sup>2) = 1"
      using hb cs coeffs_sum_sp coeffs_sum_pp coeffs_sum_sd by blast
    with cs show ?thesis by blast
  qed
  moreover have "\<exists>cs. bloch_to_orbital_coeffs (pi / 2) 0 ''sp'' = Inr cs
         \<and> map (\<lambda>(k, c). (k, (cmod c)\<^sup>2)) cs = [((1, 0, 0), 1 / 2), ((2, 0, 0), 1 / 2)]"
    by (simp add: bloch_to_orbital_coeffs_def bloch_to_state_vector_cis cos_45 sin_45
        power_divide)
  ultimately show ?thesis by blast
qed

theorem bloch_to_orbital_coeffs_normalized_witness:
  "''pp'' \<in> {''sp'', ''pp'', ''sd''}
   \<and> (\<exists>cs. bloch_to_orbital_coeffs (pi / 3) (pi / 4) ''pp'' = Inr cs
         \<and> (\<Sum>(k, c)\<leftarrow>cs. (cmod c)\<^sup>2) = 1)"
  using bloch_to_orbital_coeffs_normalized [of "''pp''" "pi / 3" "pi / 4"] by simp

section \<open>Auxiliary facts about the gates\<close>

lemma state_vector_to_bloch_cos_sin:
  assumes "0 \<le> t" "t \<le> pi / 2"
  shows "state_vector_to_bloch (of_real (cos t), of_real (sin t)) = (2 * t, 0)"
proof -
  have c: "0 \<le> cos t" using assms by (intro cos_ge_zero) auto
  have s: "0 \<le> sin t" using assms pi_gt_zero by (intro sin_ge_zero) auto
  have a: "arccos (cos t) = t" using assms pi_gt_zero by (intro arccos_cos) auto
  have "pymod 0 (2 * pi) = 0" by (simp add: pymod_def)
  then show ?thesis using c s a
    by (simp add: state_vector_to_bloch_def Let_def angle_eq_Arg Arg_of_real_nonneg)
qed

lemma gate_matrix_of_H: "gate_matrix_of pf (GateName ''H'') = Inr HADAMARD"
  by (simp add: gate_matrix_of_def QUANTUM_GATES_def)

lemma gate_matrix_of_X: "gate_matrix_of pf (GateName ''X'') = Inr PAULI_X"
  by (simp add: gate_matrix_of_def QUANTUM_GATES_def)

lemma cos_sin_pi4: "cos (pi / 4) = sqrt 2 / 2" "sin (pi / 4) = sqrt 2 / 2"
  by (simp_all add: cos_45 sin_45)

lemma hadamard_on_zero:
  "matvec HADAMARD (bloch_to_state_vector 0 0) = (of_real (cos (pi / 4)), of_real (sin (pi / 4)))"
proof -
  have "1 / sqrt 2 = sqrt 2 / 2" by (simp add: real_div_sqrt field_simps)
  then have "1 / complex_of_real (sqrt 2) = complex_of_real (sqrt 2 / 2)"
    by (metis of_real_divide of_real_1)
  then show ?thesis
    by (simp add: matvec_def HADAMARD_def mat_div_def bloch_to_state_vector_cis cos_sin_pi4)
qed

lemma plus_state: 
  "bloch_to_state_vector (pi / 2) 0 = (of_real (cos (pi / 4)), of_real (sin (pi / 4)))"
  by (simp add: bloch_to_state_vector_cis)

lemma pauli_x_on_plus:
  "matvec PAULI_X (bloch_to_state_vector (pi / 2) 0) = (of_real (cos (pi / 4)), of_real (sin (pi / 4)))"
  by (simp add: matvec_def PAULI_X_def plus_state cos_sin_pi4)

lemma hadamard_on_plus:
  "matvec HADAMARD (bloch_to_state_vector (pi / 2) 0) = (of_real (cos 0), of_real (sin 0))"
proof -
  have "sqrt 2 * sqrt 2 = 2" by simp
  then have "complex_of_real (sqrt 2) * complex_of_real (sqrt 2) = 2"
    by (metis of_real_mult of_real_numeral)
  then have "complex_of_real (sqrt 2) / complex_of_real (sqrt 2) = 1" by simp
  then show ?thesis
    by (simp add: matvec_def HADAMARD_def mat_div_def plus_state cos_sin_pi4
        add_divide_distrib [symmetric])
qed

lemma apply_H_zero: "apply_gate_to_bloch pf 0 0 (GateName ''H'') = Inr (pi / 2, 0)"
  using state_vector_to_bloch_cos_sin [of "pi / 4"]
  by (simp add: apply_gate_to_bloch_def apply_gate_to_state_def gate_matrix_of_H
      hadamard_on_zero)

lemma apply_X_plus: "apply_gate_to_bloch pf (pi / 2) 0 (GateName ''X'') = Inr (pi / 2, 0)"
  using state_vector_to_bloch_cos_sin [of "pi / 4"]
  by (simp add: apply_gate_to_bloch_def apply_gate_to_state_def gate_matrix_of_X
      pauli_x_on_plus)

lemma apply_H_plus: "apply_gate_to_bloch pf (pi / 2) 0 (GateName ''H'') = Inr (0, 0)"
  using state_vector_to_bloch_cos_sin [of 0]
  by (simp only: apply_gate_to_bloch_def apply_gate_to_state_def gate_matrix_of_H
      hadamard_on_plus Let_def sum.case) simp


section \<open>Gate sequence\<close>

text \<open>
  Claim C4. The code on the sequence of the claim: from \<open>theta = 0\<close>, \<open>phi = 0\<close> the gate \<open>H\<close>
  yields \<open>theta = pi/2\<close>, \<open>phi = 0\<close>, as claimed. From there \<open>X\<close> leaves the angles
  unchanged and \<open>H\<close> again yields \<open>theta = 0\<close>, \<open>phi = 0\<close>, which is farther than \<open>1e-6\<close>
  from the \<open>theta = pi\<close> that the claim and the tests \<^verbatim>\<open>test_quantum_gates\<close> and
  \<^verbatim>\<open>quick_test.py\<close> of the repository expect.
\<close>

theorem gate_sequence_H_X_H:
  "apply_gate_to_bloch float_of 0 0 (GateName ''H'') = Inr (pi / 2, 0)
   \<and> apply_gate_to_bloch float_of (pi / 2) 0 (GateName ''X'') = Inr (pi / 2, 0)
   \<and> apply_gate_to_bloch float_of (pi / 2) 0 (GateName ''H'') = Inr (0, 0)
   \<and> \<not> \<bar>0 - pi\<bar> \<le> 1 / 10 ^ 6"
proof -
  have "\<not> \<bar>0 - pi\<bar> \<le> 1 / 10 ^ 6" using pi_ge_two by simp
  then show ?thesis
    using apply_H_zero [of float_of] apply_X_plus [of float_of] apply_H_plus [of float_of]
    by simp
qed

section \<open>Auxiliary facts about the wavefunctions\<close>

lemma validate_quantum_numbers_iff:
  "validate_quantum_numbers n l m = (if valid_nlm n l m then Inr True else Inl InvalidQuantumNumbers)"
  by (auto simp: validate_quantum_numbers_def valid_nlm_def MAX_PRINCIPAL_QUANTUM_NUMBER_def)

lemma valid_nlm_zero: "valid_nlm n l m \<Longrightarrow> valid_nlm n l 0"
  by (auto simp: valid_nlm_def)

lemma cartesian_to_spherical_origin: "cartesian_to_spherical 0 0 0 = (0, pi / 2, 0)"
  by (simp add: cartesian_to_spherical_def clip_def arctan2_def Let_def)

lemma radial_wavefunction_origin:
  "valid_nlm n l m \<Longrightarrow>
     radial_wavefunction n l 0 = Inr (if l > 0 then 0 else norm_factor n l)"
  using valid_nlm_zero [of n l m]
  by (simp add: radial_wavefunction_def validate_quantum_numbers_iff Let_def)

lemma sph_harm_00: "sph_harm 0 0 az pol = of_real (sqrt (1 / (4 * pi)))"
  by (simp add: sph_harm_def lpmv_def)

lemma spherical_harmonic_00: "spherical_harmonic 0 0 theta phi rf = of_real (sqrt (1 / (4 * pi)))"
  by (simp add: spherical_harmonic_def sph_harm_00)

lemma hydrogen_orbital_origin:
  assumes "valid_nlm n l m"
  shows "hydrogen_orbital n l m 0 0 0 rf =
           Inr (if l > 0 then 0 else of_real (norm_factor n 0) * of_real (sqrt (1 / (4 * pi))))"
proof (cases "l > 0")
  case True
  then show ?thesis
    using assms radial_wavefunction_origin [OF assms]
    by (simp add: hydrogen_orbital_def validate_quantum_numbers_iff cartesian_to_spherical_origin)
next
  case False
  then have "l = 0" "m = 0" using assms by (auto simp: valid_nlm_def)
  then show ?thesis
    using assms radial_wavefunction_origin [OF assms]
    by (simp add: hydrogen_orbital_def validate_quantum_numbers_iff cartesian_to_spherical_origin
        spherical_harmonic_00)
qed

lemma norm_factor_1_0: "norm_factor 1 0 = 2"
proof -
  have "sqrt 4 = 2" using real_sqrt_abs [of 2] by simp
  then show ?thesis by (simp add: norm_factor_def)
qed

lemma sqrt_inv_4pi_lt_1: "sqrt (1 / (4 * pi)) < 1"
proof -
  have "1 / (4 * pi) < 1" using pi_ge_two by (simp add: divide_less_eq)
  then have "sqrt (1 / (4 * pi)) < sqrt 1" by (rule real_sqrt_less_mono)
  then show ?thesis by simp
qed

lemma sqrt_inv_4pi: "sqrt (1 / (4 * pi)) = 1 / (2 * sqrt pi)"
proof -
  have "sqrt 4 = 2" using real_sqrt_abs [of 2] by simp
  then show ?thesis by (simp add: real_sqrt_divide real_sqrt_mult)
qed

lemma psi_total_loop_iff:
  "psi_total_loop cs x y z acc = Inr t \<longleftrightarrow>
     (\<exists>ps. list_all2 (\<lambda>((n, l, m), c) p. hydrogen_orbital n l m x y z True = Inr p) cs ps
           \<and> t = acc + (\<Sum>(c, p)\<leftarrow>zip (map snd cs) ps. c * p))"
proof (induction cs arbitrary: acc)
  case Nil
  then show ?case by auto
next
  case (Cons a cs)
  obtain n l m c where a: "a = ((n, l, m), c)" by (cases a) auto
  show ?case
  proof (cases "hydrogen_orbital n l m x y z True")
    case (Inl e)
    then show ?thesis by (auto simp: a list_all2_Cons1)
  next
    case (Inr p)
    then show ?thesis
      by (auto simp: a Cons.IH list_all2_Cons1 add.assoc)
  qed
qed

section \<open>Wavefunction values\<close>

text \<open>
  Claim C3, as amended. For valid quantum numbers with \<open>l > 0\<close>,
  \<^verbatim>\<open>hydrogen_orbital(n, l, m, 0, 0, 0)\<close> is \<open>0\<close>. For \<open>l = 0\<close> it is the product \<open>R \<cdot> Y\<close> of
  the value that \<^verbatim>\<open>radial_wavefunction(n, 0, 0)\<close> returns and the constant harmonic
  \<open>Y\<^sub>0\<^sub>0 = 1 / (2 sqrt pi)\<close>; for the 1s orbital that is the precomputed constant \<open>2\<close>
  times \<open>1 / (2 sqrt pi)\<close>. Which number the radial function returns at the origin for
  \<open>n > 1\<close> is not part of the statement.
\<close>

theorem hydrogen_orbital_at_origin:
  "valid_nlm n l m \<Longrightarrow>
     (0 < l \<longrightarrow> hydrogen_orbital n l m 0 0 0 rf = Inr 0)
     \<and> (l = 0 \<longrightarrow>
          (\<exists>R. radial_wavefunction n l 0 = Inr R
              \<and> hydrogen_orbital n l m 0 0 0 rf = Inr (of_real (R / (2 * sqrt pi)))))
     \<and> (n = 1 \<longrightarrow>
          RADIAL_NORMALIZATION (n, l) = Some 2
          \<and> hydrogen_orbital n l m 0 0 0 rf = Inr (of_real (2 / (2 * sqrt pi))))"
proof -
  assume v: "valid_nlm n l m"
  note h = hydrogen_orbital_origin [OF v, of rf] and r = radial_wavefunction_origin [OF v]
  have a: "0 < l \<longrightarrow> hydrogen_orbital n l m 0 0 0 rf = Inr 0" using h by simp
  have b: "l = 0 \<longrightarrow>
          (\<exists>R. radial_wavefunction n l 0 = Inr R
              \<and> hydrogen_orbital n l m 0 0 0 rf = Inr (of_real (R / (2 * sqrt pi))))"
    using h r by (auto simp: sqrt_inv_4pi)
  have c: "n = 1 \<longrightarrow>
          RADIAL_NORMALIZATION (n, l) = Some 2
          \<and> hydrogen_orbital n l m 0 0 0 rf = Inr (of_real (2 / (2 * sqrt pi)))"
  proof
    assume n: "n = 1"
    then have l: "l = 0" using v by (simp add: valid_nlm_def)
    show "RADIAL_NORMALIZATION (n, l) = Some 2
          \<and> hydrogen_orbital n l m 0 0 0 rf = Inr (of_real (2 / (2 * sqrt pi)))"
      using h n l by (simp add: RADIAL_NORMALIZATION_def norm_factor_1_0 sqrt_inv_4pi)
  qed
  show ?thesis using a b c by blast
qed

theorem hydrogen_orbital_at_origin_witness:
  "valid_nlm 2 1 (- 1) \<and> hydrogen_orbital 2 1 (- 1) 0 0 0 True = Inr 0
   \<and> valid_nlm 3 0 0
   \<and> (\<exists>R. radial_wavefunction 3 0 0 = Inr R
          \<and> hydrogen_orbital 3 0 0 0 0 0 True = Inr (of_real (R / (2 * sqrt pi))))
   \<and> valid_nlm 1 0 0 \<and> RADIAL_NORMALIZATION (1, 0) = Some 2
   \<and> hydrogen_orbital 1 0 0 0 0 0 True = Inr (of_real (2 / (2 * sqrt pi)))"
proof -
  have v1: "valid_nlm 2 1 (- 1)" and v2: "valid_nlm 3 0 0" and v3: "valid_nlm 1 0 0"
    by (simp_all add: valid_nlm_def)
  show ?thesis
    using v1 v2 v3 hydrogen_orbital_at_origin [OF v1, of True]
      hydrogen_orbital_at_origin [OF v2, of True] hydrogen_orbital_at_origin [OF v3, of True]
    by simp
qed

text \<open>
  The claim as first stated fails for the 1s orbital: the precomputed constant for
  \<open>(1, 0)\<close> is \<open>2\<close>, as is the computed one, and the orbital at the origin is
  \<open>2 / (2 sqrt pi)\<close>, which is not \<open>2\<close>.
\<close>

theorem hydrogen_orbital_at_origin_counterexample:
  "valid_nlm 1 0 0 \<and> RADIAL_NORMALIZATION (1, 0) = Some 2 \<and> norm_factor 1 0 = 2
   \<and> hydrogen_orbital 1 0 0 0 0 0 True \<noteq> Inr (of_real 2)"
proof -
  have v: "valid_nlm 1 0 0" by (simp add: valid_nlm_def)
  have "2 * sqrt (1 / (4 * pi)) < 2 * 1" using sqrt_inv_4pi_lt_1 by simp
  then have "2 * sqrt (1 / (4 * pi)) \<noteq> 2" by simp
  then have "complex_of_real (2 * sqrt (1 / (4 * pi))) \<noteq> of_real 2"
    by (simp only: of_real_eq_iff) simp
  then have "hydrogen_orbital 1 0 0 0 0 0 True \<noteq> Inr (of_real 2)"
    using hydrogen_orbital_origin [OF v, of True] by (simp add: norm_factor_1_0)
  then show ?thesis using v norm_factor_1_0 by (simp add: RADIAL_NORMALIZATION_def)
qed

section \<open>Density of a superposition\<close>

text \<open>
  Claim C2. \<^verbatim>\<open>orbital_coeffs_to_density(coeffs, x, y, z)\<close> returns a density exactly when
  every orbital of the map evaluates, \<open>\<psi>\<^sub>i\<close> being \<^verbatim>\<open>hydrogen_orbital\<close> with
  \<^verbatim>\<open>real_form=True\<close>, and the density is then \<open>|\<Sum> c\<^sub>i \<psi>\<^sub>i|\<^sup>2\<close>: the amplitudes are summed
  before the modulus is squared.
\<close>

theorem orbital_coeffs_to_density_coherent:
  "orbital_coeffs_to_density cs x y z = Inr d \<longleftrightarrow>
     (\<exists>ps. list_all2 (\<lambda>((n, l, m), c) p. hydrogen_orbital n l m x y z True = Inr p) cs ps
           \<and> d = (cmod (\<Sum>(c, p)\<leftarrow>zip (map snd cs) ps. c * p))\<^sup>2)"
proof -
  have "orbital_coeffs_to_density cs x y z = Inr d \<longleftrightarrow>
          (\<exists>t. psi_total_loop cs x y z 0 = Inr t \<and> d = (cmod t)\<^sup>2)"
    by (auto simp: orbital_coeffs_to_density_def split: sum.splits)
  then show ?thesis by (auto simp: psi_total_loop_iff)
qed

theorem orbital_coeffs_to_density_coherent_witness:
  "orbital_coeffs_to_density [((1, 0, 0), 3), ((2, 1, 0), \<i>)] 0 0 0
     = Inr ((cmod (3 * of_real (norm_factor 1 0 / (2 * sqrt pi)) + \<i> * 0))\<^sup>2)"
proof -
  define p1 :: complex where "p1 = of_real (norm_factor 1 0 / (2 * sqrt pi))"
  have v1: "valid_nlm 1 0 0" and v2: "valid_nlm 2 1 0" by (simp_all add: valid_nlm_def)
  have h1: "hydrogen_orbital 1 0 0 0 0 0 True = Inr p1"
    using hydrogen_orbital_origin [OF v1, of True] by (simp add: sqrt_inv_4pi p1_def)
  have h2: "hydrogen_orbital 2 1 0 0 0 0 True = Inr 0"
    using hydrogen_orbital_origin [OF v2, of True] by simp
  have "\<exists>ps. list_all2 (\<lambda>((n, l, m), c) p. hydrogen_orbital n l m 0 0 0 True = Inr p)
               [((1, 0, 0), 3), ((2, 1, 0), \<i>)] ps
             \<and> (cmod (3 * p1 + \<i> * 0))\<^sup>2
                 = (cmod (\<Sum>(c, p)\<leftarrow>zip (map snd [((1, 0, 0), 3), ((2, 1, 0), \<i>)]) ps. c * p))\<^sup>2"
    by (rule exI [of _ "[p1, 0]"]) (simp add: h1 h2)
  then have "orbital_coeffs_to_density [((1, 0, 0), 3), ((2, 1, 0), \<i>)] 0 0 0
               = Inr ((cmod (3 * p1 + \<i> * 0))\<^sup>2)"
    by (rule iffD2 [OF orbital_coeffs_to_density_coherent])
  then show ?thesis by (simp only: p1_def)
qed

section \<open>Auxiliary facts about arrays\<close>

lemma sequence_Inr_map: "sequence (map (\<lambda>x. Inr (g x)) xs) = Inr (map g xs)"
  by (induction xs) simp_all

lemma sequence3_grid3:
  "sequence3 (grid3 (\<lambda>x y z. Inr (f x y z)) xs ys zs) = Inr (grid3 f xs ys zs)"
proof -
  have row: "sequence (map (\<lambda>z. Inr (f x y z)) zs) = Inr (map (\<lambda>z. f x y z) zs)" for x y
    by (rule sequence_Inr_map)
  have plane: "sequence (map sequence (map (\<lambda>y. map (\<lambda>z. Inr (f x y z)) zs) ys))
                 = Inr (map (\<lambda>y. map (\<lambda>z. f x y z) zs) ys)" for x
    by (simp add: comp_def row sequence_Inr_map)
  show ?thesis
    by (simp add: sequence3_def grid3_def comp_def plane sequence_Inr_map)
qed

lemma map3_grid3: "map3 h (grid3 f xs ys zs) = grid3 (\<lambda>x y z. h (f x y z)) xs ys zs"
  by (simp add: map3_def grid3_def comp_def)

lemma map2_same: "map2 h (map f xs) (map g xs) = map (\<lambda>x. h (f x) (g x)) xs"
  by (induction xs) simp_all

lemma add3_grid3:
  "add3 (grid3 f xs ys zs) (grid3 g xs ys zs) = grid3 (\<lambda>x y z. f x y z + g x y z) xs ys zs"
  by (simp add: add3_def grid3_def map2_same)

lemma linspace_lattice: "0 \<le> r \<Longrightarrow> linspace (- e) e r = Inr (lattice_axis e r)"
  by (simp add: linspace_def lattice_axis_def)

lemma linspace_negative: "r < 0 \<Longrightarrow> linspace a b r = Inl (NegativeSampleCount r)"
  by (simp add: linspace_def)

lemma max_of_Max: "ns \<noteq> [] \<Longrightarrow> max_of ns = Inr (Max (set ns))"
proof (cases ns)
  case Nil
  assume "ns \<noteq> []"
  with Nil show ?thesis by simp
next
  case (Cons a list)
  have "fold max list a = Max (set (a # list))" by (rule Max.set_eq_fold [symmetric])
  then show ?thesis unfolding Cons by (simp only: max_of.simps)
qed

section \<open>Auxiliary facts about the density on a lattice\<close>


lemma hydrogen_orbital_returns:
  "valid_nlm n l m \<Longrightarrow> \<exists>p. hydrogen_orbital n l m x y z rf = Inr p"
  using valid_nlm_zero [of n l m]
  by (auto simp: hydrogen_orbital_def radial_wavefunction_def validate_quantum_numbers_iff
      Let_def split: prod.splits)

lemma hydrogen_orbital_psi_value:
  "valid_nlm n l m \<Longrightarrow> hydrogen_orbital n l m x y z True = Inr (psi_value n l m x y z)"
  using hydrogen_orbital_returns [of n l m x y z True] by (auto simp: psi_value_def)

lemma hydrogen_orbital_grid_valid:
  assumes "valid_nlm n l m"
  shows "hydrogen_orbital_grid n l m xs ys zs
           = Inr (if m = 0 then Complex128 else Float64, grid3 (psi_value n l m) xs ys zs)"
proof -
  have "(\<lambda>x y z. hydrogen_orbital n l m x y z True) = (\<lambda>x y z. Inr (psi_value n l m x y z))"
    using hydrogen_orbital_psi_value [OF assms] by (intro ext) simp
  then have "sequence3 (grid3 (\<lambda>x y z. hydrogen_orbital n l m x y z True) xs ys zs)
               = Inr (grid3 (psi_value n l m) xs ys zs)"
    using sequence3_grid3 [of "psi_value n l m" xs ys zs] by simp
  then show ?thesis
    using assms by (simp add: hydrogen_orbital_grid_def validate_quantum_numbers_iff)
qed

lemma hydrogen_orbital_grid_invalid:
  "\<not> valid_nlm n l m \<Longrightarrow> hydrogen_orbital_grid n l m xs ys zs = Inl InvalidQuantumNumbers"
  by (simp add: hydrogen_orbital_grid_def validate_quantum_numbers_iff)

lemma complex_loop_from_array:
  assumes "list_all (\<lambda>((n, l, m), c). valid_nlm n l m) cs"
  shows "psi_total_grid_loop (with_dtype Complex128 cs) xs ys zs (NdArray Complex128 (grid3 A xs ys zs))
           = Inr (NdArray Complex128
                   (grid3 (\<lambda>x y z. A x y z + (\<Sum>((n, l, m), c)\<leftarrow>cs. c * psi_value n l m x y z)) xs ys zs))"
  using assms
proof (induction cs arbitrary: A)
  case Nil
  then show ?case by (simp add: with_dtype_def)
next
  case (Cons a cs)
  obtain n l m c where a: "a = ((n, l, m), c)" by (cases a) auto
  from Cons.prems a have v: "valid_nlm n l m"
    and rest: "list_all (\<lambda>((n, l, m), c). valid_nlm n l m) cs" by simp_all
  have step: "psi_total_grid_loop (with_dtype Complex128 (a # cs)) xs ys zs (NdArray Complex128 (grid3 A xs ys zs))
      = psi_total_grid_loop (with_dtype Complex128 cs) xs ys zs
          (NdArray Complex128 (grid3 (\<lambda>x y z. A x y z + c * psi_value n l m x y z) xs ys zs))"
    using with_dtype_def [of Complex128 cs]
    by (simp add: a with_dtype_def hydrogen_orbital_grid_valid [OF v] map3_grid3 add3_grid3
        result_dtype_def Let_def)
  show ?case
    unfolding step Cons.IH [OF rest] by (simp add: a add.assoc)
qed

lemma complex_loop_from_float:
  assumes "list_all (\<lambda>((n, l, m), c). valid_nlm n l m) cs" "cs \<noteq> []"
  shows "psi_total_grid_loop (with_dtype Complex128 cs) xs ys zs PyFloat
           = Inr (NdArray Complex128
                   (grid3 (\<lambda>x y z. (\<Sum>((n, l, m), c)\<leftarrow>cs. c * psi_value n l m x y z)) xs ys zs))"
proof -
  obtain a rest where cs: "cs = a # rest" using assms(2) by (cases cs) auto
  obtain n l m c where a: "a = ((n, l, m), c)" by (cases a) auto
  from assms(1) cs a have v: "valid_nlm n l m"
    and r: "list_all (\<lambda>((n, l, m), c). valid_nlm n l m) rest" by simp_all
  have "psi_total_grid_loop (with_dtype Complex128 cs) xs ys zs PyFloat
      = psi_total_grid_loop (with_dtype Complex128 rest) xs ys zs
          (NdArray Complex128 (grid3 (\<lambda>x y z. c * psi_value n l m x y z) xs ys zs))"
    by (simp add: cs a with_dtype_def hydrogen_orbital_grid_valid [OF v] map3_grid3
        result_dtype_def Let_def)
  then show ?thesis
    using complex_loop_from_array [OF r, of xs ys zs "\<lambda>x y z. c * psi_value n l m x y z"]
    by (simp add: cs a)
qed

lemma density_grid_complex:
  assumes "list_all (\<lambda>((n, l, m), c). valid_nlm n l m) cs" "cs \<noteq> []"
  shows "orbital_coeffs_to_density_grid (with_dtype Complex128 cs) xs ys zs
           = Inr (ArrayDensity (grid3 (coherent_density cs) xs ys zs))"
proof -
  have "coherent_density cs
          = (\<lambda>x y z. (cmod (\<Sum>((n, l, m), c)\<leftarrow>cs. c * psi_value n l m x y z))\<^sup>2)"
    by (intro ext) (simp add: coherent_density_def)
  then show ?thesis
    by (simp add: orbital_coeffs_to_density_grid_def complex_loop_from_float [OF assms]
        map3_grid3)
qed

lemma density_grid_pp_raises:
  "orbital_coeffs_to_density_grid
     (with_dtype Float64 [((2, 1, 1), a), ((2, 1, - 1), b), ((2, 1, 0), c)]) xs ys zs
     = Inl CastError"
proof -
  have v: "valid_nlm 2 1 1" "valid_nlm 2 1 (- 1)" "valid_nlm 2 1 0"
    by (simp_all add: valid_nlm_def)
  show ?thesis
    by (simp add: orbital_coeffs_to_density_grid_def with_dtype_def
        hydrogen_orbital_grid_valid [OF v(1)] hydrogen_orbital_grid_valid [OF v(2)]
        hydrogen_orbital_grid_valid [OF v(3)] result_dtype_def Let_def)
qed

lemma density_grid_empty: "orbital_coeffs_to_density_grid [] xs ys zs = Inr (ScalarDensity 0)"
  by (simp add: orbital_coeffs_to_density_grid_def)

section \<open>Auxiliary facts about the composite state\<close>

lemma resolved_extent_computed:
  "cs \<noteq> [] \<Longrightarrow>
     (case ext of
        Some e \<Rightarrow> Inr e
      | None \<Rightarrow> (case max_of (map (\<lambda>(k, c). fst k) cs) of
                   Inl e \<Rightarrow> Inl e
                 | Inr max_n \<Rightarrow> Inr (get_orbital_extent max_n)))
     = Inr (resolved_extent cs ext)"
  by (cases ext) (simp_all add: resolved_extent_def max_of_Max)

lemma resample_complex:
  assumes "p_orbital_coeffs st \<noteq> []"
    "list_all (\<lambda>((n, l, m), c). valid_nlm n l m) (p_orbital_coeffs st)"
    "p_coeffs_dtype st = Complex128" "0 \<le> resolved_resolution res"
  shows "resample_density_grid st res ext
           = (Inr (expected_grid (p_orbital_coeffs st) res ext),
              st\<lparr>p_density_cache := Some (expected_grid (p_orbital_coeffs st) res ext)\<rparr>)"
proof -
  let ?cs = "p_orbital_coeffs st"
  let ?e = "resolved_extent ?cs ext"
  let ?r = "resolved_resolution res"
  have r: "(case res of None \<Rightarrow> DEFAULT_GRID_RESOLUTION | Some r \<Rightarrow> r) = ?r"
    by (simp add: resolved_resolution_def)
  have l: "linspace (- ?e) ?e ?r = Inr (lattice_axis ?e ?r)"
    using assms(4) by (rule linspace_lattice)
  have d: "orbital_coeffs_to_density_grid (with_dtype (p_coeffs_dtype st) ?cs)
             (lattice_axis ?e ?r) (lattice_axis ?e ?r) (lattice_axis ?e ?r)
           = Inr (ArrayDensity (grid3 (coherent_density ?cs)
                   (lattice_axis ?e ?r) (lattice_axis ?e ?r) (lattice_axis ?e ?r)))"
    using density_grid_complex [OF assms(2) assms(1)] assms(3) by simp
  show ?thesis
    unfolding resample_density_grid_def r resolved_extent_computed [OF assms(1)]
    by (simp add: l d expected_grid_def Let_def)
qed

lemma resample_negative:
  assumes "p_orbital_coeffs st \<noteq> []" "resolved_resolution res < 0"
  shows "resample_density_grid st res ext = (Inl (NegativeSampleCount (resolved_resolution res)), st)"
proof -
  have r: "(case res of None \<Rightarrow> DEFAULT_GRID_RESOLUTION | Some r \<Rightarrow> r) = resolved_resolution res"
    by (simp add: resolved_resolution_def)
  show ?thesis
    unfolding resample_density_grid_def r resolved_extent_computed [OF assms(1)]
    using linspace_negative [OF assms(2)] by (simp add: Let_def)
qed

lemma calculate_cached:
  "p_density_cache st = Some g \<Longrightarrow> calculate_density_grid st res ext True = (Inr g, st)"
  by (simp add: calculate_density_grid_def)

lemma calculate_uncached:
  "\<not> (use_cache \<and> p_density_cache st \<noteq> None) \<Longrightarrow>
     calculate_density_grid st res ext use_cache = resample_density_grid st res ext"
  by (auto simp: calculate_density_grid_def)

lemma constructed_state:
  assumes "BlochOrbitalState theta phi b = Inr st"
  shows "basis st = b \<and> p_density_cache st = None
       \<and> bloch_to_orbital_coeffs theta phi b = Inr (p_orbital_coeffs st)
       \<and> p_coeffs_dtype st = orbital_coeffs_dtype b"
  using assms
  by (auto simp: BlochOrbitalState_def set_bloch_state_def Let_def split: sum.splits)

lemma complex_basis_coeffs:
  assumes "b \<in> {''sp'', ''sd''}" "bloch_to_orbital_coeffs theta phi b = Inr cs"
  shows "cs \<noteq> [] \<and> list_all (\<lambda>((n, l, m), c). valid_nlm n l m) cs
       \<and> orbital_coeffs_dtype b = Complex128"
  using assms
  by (auto simp: bloch_to_orbital_coeffs_def orbital_coeffs_dtype_def valid_nlm_def
      split: prod.splits)

lemma zero_state_sp_constructed: "BlochOrbitalState 0 0 ''sp'' = Inr zero_state_sp"
  by (simp add: BlochOrbitalState_def set_bloch_state_def bloch_to_orbital_coeffs_def
      bloch_to_state_vector_cis zero_state_sp_def Let_def orbital_coeffs_dtype_def)

lemma zero_state_sp_ready:
  "p_orbital_coeffs zero_state_sp \<noteq> []"
  "list_all (\<lambda>((n, l, m), c). valid_nlm n l m) (p_orbital_coeffs zero_state_sp)"
  "p_coeffs_dtype zero_state_sp = Complex128"
  "p_density_cache zero_state_sp = None"
  by (simp_all add: zero_state_sp_def valid_nlm_def)

lemma lattice_axis_values:
  "lattice_axis 1 1 = [- 1]" "lattice_axis 1 2 = [- 1, 1]"
  by (simp_all add: lattice_axis_def upt_rec)

lemma first_sample:
  "calculate_density_grid zero_state_sp (Some 1) (Some 1) True
     = (Inr (expected_grid (p_orbital_coeffs zero_state_sp) (Some 1) (Some 1)),
        zero_state_sp\<lparr>p_density_cache :=
          Some (expected_grid (p_orbital_coeffs zero_state_sp) (Some 1) (Some 1))\<rparr>)"
  using resample_complex [OF zero_state_sp_ready(1,2,3), of "Some 1" "Some 1"]
    calculate_uncached [of True zero_state_sp "Some 1" "Some 1"] zero_state_sp_ready(4)
  by (simp add: resolved_resolution_def)

lemma sampled_zero_state_eq:
  "sampled_zero_state
     = zero_state_sp\<lparr>p_density_cache :=
         Some (expected_grid (p_orbital_coeffs zero_state_sp) (Some 1) (Some 1))\<rparr>"
  by (simp add: sampled_zero_state_def first_sample)

lemma expected_x_grid_1:
  "x_grid (expected_grid cs (Some 1) (Some 1)) = [[[- 1]]]"
  by (simp add: expected_grid_def resolved_extent_def resolved_resolution_def
      lattice_axis_values grid3_def Let_def)

lemma expected_x_grid_2:
  "x_grid (expected_grid cs (Some 2) (Some 1)) = [[[- 1, - 1], [- 1, - 1]], [[1, 1], [1, 1]]]"
  by (simp add: expected_grid_def resolved_extent_def resolved_resolution_def
      lattice_axis_values grid3_def Let_def)

text \<open>
  On a state of the \<open>pp\<close> basis the sampling path raises: the third orbital, \<open>m = 0\<close>, is
  a complex array and the accumulator built from the first two is \<^verbatim>\<open>float64\<close>. The state,
  and with it the cache, is left as it was.
\<close>

lemma calculate_density_grid_pp_raises:
  assumes "BlochOrbitalState theta phi ''pp'' = Inr st" "0 \<le> resolved_resolution res"
  shows "calculate_density_grid st res ext use_cache = (Inl CastError, st)"
proof -
  note f = constructed_state [OF assms(1)]
  obtain a b c where cs: "p_orbital_coeffs st = [((2, 1, 1), a), ((2, 1, - 1), b), ((2, 1, 0), c)]"
  proof -
    have "bloch_to_orbital_coeffs theta phi ''pp'' = Inr (p_orbital_coeffs st)" using f by blast
    then have "p_orbital_coeffs st
                 = [((2, 1, 1), of_real (sin (theta / 2) * cos phi)),
                    ((2, 1, - 1), of_real (sin (theta / 2) * sin phi)),
                    ((2, 1, 0), of_real (cos (theta / 2)))]"
      by (auto simp: bloch_to_orbital_coeffs_def Let_def split: prod.splits)
    then show ?thesis using that by blast
  qed
  have dt: "p_coeffs_dtype st = Float64" using f by (simp add: orbital_coeffs_dtype_def)
  have ne: "p_orbital_coeffs st \<noteq> []" using cs by simp
  have r: "(case res of None \<Rightarrow> DEFAULT_GRID_RESOLUTION | Some r \<Rightarrow> r) = resolved_resolution res"
    by (simp add: resolved_resolution_def)
  have "resample_density_grid st res ext = (Inl CastError, st)"
    unfolding resample_density_grid_def r resolved_extent_computed [OF ne]
    using linspace_lattice [OF assms(2)] density_grid_pp_raises [of a b c]
    by (simp add: dt cs Let_def)
  moreover have "calculate_density_grid st res ext use_cache = resample_density_grid st res ext"
    using f by (intro calculate_uncached) simp
  ultimately show ?thesis by simp
qed

section \<open>The density cache\<close>

text \<open>
  Claim C1, as amended. \<^verbatim>\<open>calculate_density_grid(resolution, extent, use_cache)\<close> returns
  the cached grid, and leaves the state alone, whenever a cache is present and
  \<open>use_cache\<close> is true, whatever resolution and extent are requested: the cache stores no
  key. In every other case it takes the sampling path. On a state whose coefficient map
  is not empty, has valid keys and complex entries (the maps of the \<open>sp\<close> and \<open>sd\<close>
  bases), for a resolution that is not negative, the sampling path returns the grid of
  the specification, at the requested or default resolution and extent, with
  \<open>|\<Sum> c\<^sub>i \<psi>\<^sub>i|\<^sup>2\<close> of the current coefficients at each lattice point, and stores it as the new
  cache; so does any call on a state just constructed with one of these two bases.
\<close>

theorem calculate_density_grid_cache_rule:
  "(use_cache \<and> p_density_cache st = Some g \<longrightarrow>
      calculate_density_grid st res ext use_cache = (Inr g, st))
   \<and> (\<not> (use_cache \<and> p_density_cache st \<noteq> None) \<longrightarrow>
        calculate_density_grid st res ext use_cache = resample_density_grid st res ext)
   \<and> (p_orbital_coeffs st \<noteq> []
        \<and> list_all (\<lambda>((n, l, m), c). valid_nlm n l m) (p_orbital_coeffs st)
        \<and> p_coeffs_dtype st = Complex128 \<and> 0 \<le> resolved_resolution res \<longrightarrow>
        resample_density_grid st res ext
          = (Inr (expected_grid (p_orbital_coeffs st) res ext),
             st\<lparr>p_density_cache := Some (expected_grid (p_orbital_coeffs st) res ext)\<rparr>))
   \<and> (b \<in> {''sp'', ''sd''} \<and> BlochOrbitalState theta phi b = Inr st
        \<and> 0 \<le> resolved_resolution res \<longrightarrow>
        calculate_density_grid st res ext use_cache
          = (Inr (expected_grid (p_orbital_coeffs st) res ext),
             st\<lparr>p_density_cache := Some (expected_grid (p_orbital_coeffs st) res ext)\<rparr>))"
proof (intro conjI impI)
  assume "use_cache \<and> p_density_cache st = Some g"
  then show "calculate_density_grid st res ext use_cache = (Inr g, st)"
    using calculate_cached [of st g res ext] by simp
next
  assume "\<not> (use_cache \<and> p_density_cache st \<noteq> None)"
  then show "calculate_density_grid st res ext use_cache = resample_density_grid st res ext"
    by (rule calculate_uncached)
next
  assume h: "p_orbital_coeffs st \<noteq> []
        \<and> list_all (\<lambda>((n, l, m), c). valid_nlm n l m) (p_orbital_coeffs st)
        \<and> p_coeffs_dtype st = Complex128 \<and> 0 \<le> resolved_resolution res"
  then show "resample_density_grid st res ext
          = (Inr (expected_grid (p_orbital_coeffs st) res ext),
             st\<lparr>p_density_cache := Some (expected_grid (p_orbital_coeffs st) res ext)\<rparr>)"
    by (intro resample_complex) simp_all
next
  assume h: "b \<in> {''sp'', ''sd''} \<and> BlochOrbitalState theta phi b = Inr st
        \<and> 0 \<le> resolved_resolution res"
  then have c: "BlochOrbitalState theta phi b = Inr st" and b: "b \<in> {''sp'', ''sd''}"
    and r: "0 \<le> resolved_resolution res" by simp_all
  note f = constructed_state [OF c]
  from f have cs: "bloch_to_orbital_coeffs theta phi b = Inr (p_orbital_coeffs st)" by blast
  note k = complex_basis_coeffs [OF b cs]
  have "resample_density_grid st res ext
          = (Inr (expected_grid (p_orbital_coeffs st) res ext),
             st\<lparr>p_density_cache := Some (expected_grid (p_orbital_coeffs st) res ext)\<rparr>)"
    using k f r by (intro resample_complex) simp_all
  moreover have "calculate_density_grid st res ext use_cache = resample_density_grid st res ext"
    using f by (intro calculate_uncached) simp
  ultimately show "calculate_density_grid st res ext use_cache
          = (Inr (expected_grid (p_orbital_coeffs st) res ext),
             st\<lparr>p_density_cache := Some (expected_grid (p_orbital_coeffs st) res ext)\<rparr>)"
    by simp
qed

theorem calculate_density_grid_cache_rule_witness:
  "''sp'' \<in> {''sp'', ''sd''} \<and> BlochOrbitalState 0 0 ''sp'' = Inr zero_state_sp
   \<and> 0 \<le> resolved_resolution (Some 2)
   \<and> calculate_density_grid zero_state_sp (Some 2) (Some 1) True
       = (Inr (expected_grid (p_orbital_coeffs zero_state_sp) (Some 2) (Some 1)),
          zero_state_sp\<lparr>p_density_cache :=
            Some (expected_grid (p_orbital_coeffs zero_state_sp) (Some 2) (Some 1))\<rparr>)
   \<and> x_grid (expected_grid (p_orbital_coeffs zero_state_sp) (Some 2) (Some 1))
       = [[[- 1, - 1], [- 1, - 1]], [[1, 1], [1, 1]]]
   \<and> calculate_density_grid
         (zero_state_sp\<lparr>p_density_cache :=
            Some (expected_grid (p_orbital_coeffs zero_state_sp) (Some 2) (Some 1))\<rparr>)
         (Some 5) (Some 3) True
       = (Inr (expected_grid (p_orbital_coeffs zero_state_sp) (Some 2) (Some 1)),
          zero_state_sp\<lparr>p_density_cache :=
            Some (expected_grid (p_orbital_coeffs zero_state_sp) (Some 2) (Some 1))\<rparr>)
   \<and> calculate_density_grid zero_state_sp (Some 2) (Some 1) False
       = resample_density_grid zero_state_sp (Some 2) (Some 1)
   \<and> resample_density_grid zero_state_sp (Some 2) (Some 1)
       = (Inr (expected_grid (p_orbital_coeffs zero_state_sp) (Some 2) (Some 1)),
          zero_state_sp\<lparr>p_density_cache :=
            Some (expected_grid (p_orbital_coeffs zero_state_sp) (Some 2) (Some 1))\<rparr>)"
proof -
  let ?G = "expected_grid (p_orbital_coeffs zero_state_sp) (Some 2) (Some 1)"
  let ?s = "zero_state_sp\<lparr>p_density_cache := Some ?G\<rparr>"
  have r: "0 \<le> resolved_resolution (Some 2)" by (simp add: resolved_resolution_def)
  have a: "calculate_density_grid zero_state_sp (Some 2) (Some 1) True = (Inr ?G, ?s)"
    using calculate_density_grid_cache_rule [of True zero_state_sp _ "Some 2" "Some 1" "''sp''" 0 0]
      zero_state_sp_constructed r by simp
  have b: "calculate_density_grid ?s (Some 5) (Some 3) True = (Inr ?G, ?s)"
    using calculate_density_grid_cache_rule [of True ?s ?G "Some 5" "Some 3"] by simp
  have c: "calculate_density_grid zero_state_sp (Some 2) (Some 1) False
       = resample_density_grid zero_state_sp (Some 2) (Some 1)"
    using calculate_density_grid_cache_rule [of False zero_state_sp _ "Some 2" "Some 1"] by simp
  have d: "resample_density_grid zero_state_sp (Some 2) (Some 1) = (Inr ?G, ?s)"
    using calculate_density_grid_cache_rule [of _ zero_state_sp _ "Some 2" "Some 1"]
      zero_state_sp_ready r by blast
  show ?thesis using a b c d r zero_state_sp_constructed expected_x_grid_2 by simp
qed

text \<open>
  The claim as first stated fails on the state \<^verbatim>\<open>BlochOrbitalState(0, 0, 'sp')\<close>: a first
  call with resolution 1 and extent 1 samples and caches the grid of the single lattice
  point \<open>(-1, -1, -1)\<close>; a second call that requests resolution 2 gets that same grid
  back, where a fresh sample is the grid of eight points.
\<close>

theorem calculate_density_grid_stale_counterexample:
  "BlochOrbitalState 0 0 ''sp'' = Inr zero_state_sp
   \<and> calculate_density_grid zero_state_sp (Some 1) (Some 1) True
       = (Inr (expected_grid (p_orbital_coeffs zero_state_sp) (Some 1) (Some 1)),
          sampled_zero_state)
   \<and> x_grid (expected_grid (p_orbital_coeffs zero_state_sp) (Some 1) (Some 1)) = [[[- 1]]]
   \<and> calculate_density_grid sampled_zero_state (Some 2) (Some 1) True
       = (Inr (expected_grid (p_orbital_coeffs zero_state_sp) (Some 1) (Some 1)),
          sampled_zero_state)
   \<and> fst (resample_density_grid sampled_zero_state (Some 2) (Some 1))
       = Inr (expected_grid (p_orbital_coeffs zero_state_sp) (Some 2) (Some 1))
   \<and> x_grid (expected_grid (p_orbital_coeffs zero_state_sp) (Some 2) (Some 1))
       = [[[- 1, - 1], [- 1, - 1]], [[1, 1], [1, 1]]]"
proof -
  let ?G1 = "expected_grid (p_orbital_coeffs zero_state_sp) (Some 1) (Some 1)"
  have s: "sampled_zero_state = zero_state_sp\<lparr>p_density_cache := Some ?G1\<rparr>"
    by (rule sampled_zero_state_eq)
  have second: "calculate_density_grid sampled_zero_state (Some 2) (Some 1) True
       = (Inr ?G1, sampled_zero_state)"
    by (rule calculate_cached) (simp add: s)
  have k: "p_orbital_coeffs sampled_zero_state = p_orbital_coeffs zero_state_sp"
    "p_coeffs_dtype sampled_zero_state = Complex128"
    using zero_state_sp_ready by (simp_all add: s)
  have fresh: "fst (resample_density_grid sampled_zero_state (Some 2) (Some 1))
       = Inr (expected_grid (p_orbital_coeffs zero_state_sp) (Some 2) (Some 1))"
    using resample_complex [of sampled_zero_state "Some 2" "Some 1"] k zero_state_sp_ready
    by (simp add: resolved_resolution_def)
  show ?thesis
    using zero_state_sp_constructed first_sample second fresh expected_x_grid_1 expected_x_grid_2
    by (simp add: s)
qed

lemma set_bloch_state_returned:
  assumes "set_bloch_state st t p = (Inr (), st')"
  shows "refreshed st' \<and> basis st' = basis st \<and> p_theta st' = t \<and> p_phi st' = p
       \<and> p_state_vector st' = bloch_to_state_vector t p"
  using assms
  by (auto simp: set_bloch_state_def refreshed_def Let_def split: sum.splits)

lemma set_bloch_state_returns:
  "basis st \<in> {''sp'', ''pp'', ''sd''} \<Longrightarrow> fst (set_bloch_state st t p) = Inr ()"
  using coeffs_returns [of "basis st" t p]
  by (auto simp: set_bloch_state_def Let_def split: sum.splits)

lemma set_state_vector_returned:
  assumes "set_state_vector st sv = (Inr (), st')"
  shows "refreshed st' \<and> basis st' = basis st
       \<and> p_state_vector st' = (fst sv / of_real (sqrt ((cmod (fst sv))\<^sup>2 + (cmod (snd sv))\<^sup>2)),
                                snd sv / of_real (sqrt ((cmod (fst sv))\<^sup>2 + (cmod (snd sv))\<^sup>2)))
       \<and> (p_theta st', p_phi st') = state_vector_to_bloch (p_state_vector st')"
  using assms
  by (auto simp: set_state_vector_def refreshed_def Let_def split: sum.splits prod.splits)

lemma set_state_vector_returns:
  "basis st \<in> {''sp'', ''pp'', ''sd''} \<Longrightarrow> fst (set_state_vector st sv) = Inr ()"
proof -
  assume b: "basis st \<in> {''sp'', ''pp'', ''sd''}"
  have "\<exists>cs. bloch_to_orbital_coeffs t p (basis st) = Inr cs" for t p
    using coeffs_returns [OF b] .
  then have "\<And>t p e. bloch_to_orbital_coeffs t p (basis st) \<noteq> Inl e" by (metis sum.distinct(1))
  then show ?thesis
    by (auto simp: set_state_vector_def Let_def split: sum.splits prod.splits)
qed

lemma set_pure_state_returned:
  assumes "set_pure_state st name = (Inr (), st')"
  shows "refreshed st' \<and> basis st' = basis st
       \<and> p_state_vector st' = bloch_to_state_vector (p_theta st') (p_phi st')
       \<and> map_option (\<lambda>i. (info_theta i, info_phi i)) (BLOCH_PURE_STATES name)
           = Some (p_theta st', p_phi st')"
  using assms set_bloch_state_returned
  by (auto simp: set_pure_state_def split: option.splits)

lemma apply_gate_returned:
  assumes "apply_gate float_of st g = (Inr (), st')"
  shows "refreshed st' \<and> basis st' = basis st
       \<and> p_state_vector st' = bloch_to_state_vector (p_theta st') (p_phi st')
       \<and> apply_gate_to_bloch float_of (p_theta st) (p_phi st) g = Inr (p_theta st', p_phi st')"
  using assms set_bloch_state_returned
  by (auto simp: apply_gate_def split: sum.splits prod.splits)

lemma refreshed_resamples:
  "refreshed st \<Longrightarrow> calculate_density_grid st res ext use_cache = resample_density_grid st res ext"
  by (simp add: refreshed_def calculate_density_grid_def)

lemma pure_state_plus: 
  "BLOCH_PURE_STATES (ket ''+'') = Some \<lparr>info_theta = pi / 2, info_phi = 0, info_orbital = (2, 1, 1), info_name = ''2px''\<rparr>"
  by (simp add: BLOCH_PURE_STATES_def ket_def)


lemma returned_collapse: "fst m = Inr () \<Longrightarrow> m = (Inr (), snd m)"
  by (cases m) simp

lemma set_pure_state_plus: "set_pure_state st (ket ''+'') = set_bloch_state st (pi / 2) 0"
  by (simp add: set_pure_state_def pure_state_plus)

lemma apply_gate_H_zero:
  "p_theta st = 0 \<Longrightarrow> p_phi st = 0 \<Longrightarrow>
     apply_gate float_of st (GateName ''H'') = set_bloch_state st (pi / 2) 0"
  by (simp add: apply_gate_def apply_H_zero)

section \<open>Mutators of the composite state\<close>

text \<open>
  Claim C8, as amended. Each of the four mutating methods, \<^verbatim>\<open>set_bloch_state\<close>,
  \<^verbatim>\<open>set_state_vector\<close> (on a vector other than zero), \<^verbatim>\<open>set_pure_state\<close> and
  \<^verbatim>\<open>apply_gate\<close>, when it returns, leaves the basis as it was, stores the state vector
  and the angles that belong together, stores the coefficients that these angles and
  the basis map to, and empties the density cache; a later
  \<^verbatim>\<open>calculate_density_grid\<close> on such a state resamples, whatever its arguments. With a
  supported basis the two setters always return. Assigning the attribute \<^verbatim>\<open>basis\<close>
  is not among them: it recomputes nothing and keeps the cache.
\<close>

theorem mutators_refresh_derived_data:
  "(set_bloch_state st t p = (Inr (), st') \<longrightarrow>
      refreshed st' \<and> basis st' = basis st \<and> p_theta st' = t \<and> p_phi st' = p
      \<and> p_state_vector st' = bloch_to_state_vector t p)
   \<and> (sv \<noteq> (0, 0) \<and> set_state_vector st sv = (Inr (), st') \<longrightarrow>
        refreshed st' \<and> basis st' = basis st
        \<and> p_state_vector st'
            = (fst sv / of_real (sqrt ((cmod (fst sv))\<^sup>2 + (cmod (snd sv))\<^sup>2)),
               snd sv / of_real (sqrt ((cmod (fst sv))\<^sup>2 + (cmod (snd sv))\<^sup>2)))
        \<and> (p_theta st', p_phi st') = state_vector_to_bloch (p_state_vector st'))
   \<and> (set_pure_state st state_name = (Inr (), st') \<longrightarrow>
        refreshed st' \<and> basis st' = basis st
        \<and> p_state_vector st' = bloch_to_state_vector (p_theta st') (p_phi st')
        \<and> map_option (\<lambda>i. (info_theta i, info_phi i)) (BLOCH_PURE_STATES state_name)
            = Some (p_theta st', p_phi st'))
   \<and> (apply_gate float_of st g = (Inr (), st') \<longrightarrow>
        refreshed st' \<and> basis st' = basis st
        \<and> p_state_vector st' = bloch_to_state_vector (p_theta st') (p_phi st')
        \<and> apply_gate_to_bloch float_of (p_theta st) (p_phi st) g = Inr (p_theta st', p_phi st'))
   \<and> (refreshed st' \<longrightarrow>
        calculate_density_grid st' res ext use_cache = resample_density_grid st' res ext)
   \<and> (basis st \<in> {''sp'', ''pp'', ''sd''} \<longrightarrow>
        fst (set_bloch_state st t p) = Inr () \<and> fst (set_state_vector st sv) = Inr ())"
proof (intro conjI impI)
  assume "set_bloch_state st t p = (Inr (), st')"
  note f = set_bloch_state_returned [OF this]
  show "refreshed st'" "basis st' = basis st" "p_theta st' = t" "p_phi st' = p"
    "p_state_vector st' = bloch_to_state_vector t p"
    using f by blast+
next
  assume "sv \<noteq> (0, 0) \<and> set_state_vector st sv = (Inr (), st')"
  then have "set_state_vector st sv = (Inr (), st')" by blast
  note f = set_state_vector_returned [OF this]
  show "refreshed st'" "basis st' = basis st"
    "p_state_vector st'
       = (fst sv / of_real (sqrt ((cmod (fst sv))\<^sup>2 + (cmod (snd sv))\<^sup>2)),
          snd sv / of_real (sqrt ((cmod (fst sv))\<^sup>2 + (cmod (snd sv))\<^sup>2)))"
    "(p_theta st', p_phi st') = state_vector_to_bloch (p_state_vector st')"
    using f by blast+
next
  assume "set_pure_state st state_name = (Inr (), st')"
  note f = set_pure_state_returned [OF this]
  show "refreshed st'" "basis st' = basis st"
    "p_state_vector st' = bloch_to_state_vector (p_theta st') (p_phi st')"
    "map_option (\<lambda>i. (info_theta i, info_phi i)) (BLOCH_PURE_STATES state_name)
       = Some (p_theta st', p_phi st')"
    using f by blast+
next
  assume "apply_gate float_of st g = (Inr (), st')"
  note f = apply_gate_returned [OF this]
  show "refreshed st'" "basis st' = basis st"
    "p_state_vector st' = bloch_to_state_vector (p_theta st') (p_phi st')"
    "apply_gate_to_bloch float_of (p_theta st) (p_phi st) g = Inr (p_theta st', p_phi st')"
    using f by blast+
next
  assume "refreshed st'"
  then show "calculate_density_grid st' res ext use_cache = resample_density_grid st' res ext"
    by (rule refreshed_resamples)
next
  assume b: "basis st \<in> {''sp'', ''pp'', ''sd''}"
  show "fst (set_bloch_state st t p) = Inr ()" using b by (rule set_bloch_state_returns)
  show "fst (set_state_vector st sv) = Inr ()" using b by (rule set_state_vector_returns)
qed

theorem mutators_refresh_derived_data_witness:
  "p_density_cache sampled_zero_state \<noteq> None
   \<and> fst (set_bloch_state sampled_zero_state (pi / 3) 1) = Inr ()
   \<and> refreshed (snd (set_bloch_state sampled_zero_state (pi / 3) 1))
   \<and> (3, 4 * \<i>) \<noteq> (0 :: complex, 0 :: complex)
   \<and> fst (set_state_vector sampled_zero_state (3, 4 * \<i>)) = Inr ()
   \<and> refreshed (snd (set_state_vector sampled_zero_state (3, 4 * \<i>)))
   \<and> fst (set_pure_state sampled_zero_state (ket ''+'')) = Inr ()
   \<and> refreshed (snd (set_pure_state sampled_zero_state (ket ''+'')))
   \<and> fst (apply_gate reject_float sampled_zero_state (GateName ''H'')) = Inr ()
   \<and> refreshed (snd (apply_gate reject_float sampled_zero_state (GateName ''H'')))
   \<and> calculate_density_grid (snd (set_bloch_state sampled_zero_state (pi / 3) 1)) None None True
       = resample_density_grid (snd (set_bloch_state sampled_zero_state (pi / 3) 1)) None None"
proof -
  let ?S = sampled_zero_state
  note S = sampled_zero_state_eq
  have b: "basis ?S \<in> {''sp'', ''pp'', ''sd''}" and z: "p_theta ?S = 0" "p_phi ?S = 0"
    and c: "p_density_cache ?S \<noteq> None"
    by (simp_all add: S zero_state_sp_def)
  have nz: "(3, 4 * \<i>) \<noteq> (0 :: complex, 0 :: complex)" by simp
  have r1: "fst (set_bloch_state ?S (pi / 3) 1) = Inr ()"
    and r2: "fst (set_state_vector ?S (3, 4 * \<i>)) = Inr ()"
    using mutators_refresh_derived_data [of ?S "pi / 3" 1 ?S "(3, 4 * \<i>)"] b by blast+
  have r3: "fst (set_pure_state ?S (ket ''+'')) = Inr ()"
    using b by (simp add: set_pure_state_plus set_bloch_state_returns)
  have r4: "fst (apply_gate reject_float ?S (GateName ''H'')) = Inr ()"
    using b z by (simp add: apply_gate_H_zero set_bloch_state_returns)
  have f1: "refreshed (snd (set_bloch_state ?S (pi / 3) 1))"
    using mutators_refresh_derived_data [of ?S "pi / 3" 1 "snd (set_bloch_state ?S (pi / 3) 1)"]
      returned_collapse [OF r1] by blast
  have f2: "refreshed (snd (set_state_vector ?S (3, 4 * \<i>)))"
    using mutators_refresh_derived_data [of ?S _ _ "snd (set_state_vector ?S (3, 4 * \<i>))" "(3, 4 * \<i>)"]
      returned_collapse [OF r2] nz by blast
  have f3: "refreshed (snd (set_pure_state ?S (ket ''+'')))"
    using mutators_refresh_derived_data [of ?S _ _ "snd (set_pure_state ?S (ket ''+''))" _ "ket ''+''"]
      returned_collapse [OF r3] by blast
  have f4: "refreshed (snd (apply_gate reject_float ?S (GateName ''H'')))"
    using mutators_refresh_derived_data [of ?S _ _ "snd (apply_gate reject_float ?S (GateName ''H''))"
        _ _ reject_float "GateName ''H''"]
      returned_collapse [OF r4] by blast
  have q: "calculate_density_grid (snd (set_bloch_state ?S (pi / 3) 1)) None None True
       = resample_density_grid (snd (set_bloch_state ?S (pi / 3) 1)) None None"
    using mutators_refresh_derived_data [of _ _ _ "snd (set_bloch_state ?S (pi / 3) 1)" _ _ _ _ None None True]
      f1 by blast
  show ?thesis using c r1 f1 nz r2 f2 r3 f3 r4 f4 q by blast
qed

text \<open>
  The claim as first stated counts a change of basis among the mutations. On the state
  built by \<^verbatim>\<open>BlochOrbitalState(0, 0, 'sp')\<close> and sampled once, \<^verbatim>\<open>state.basis = 'pp'\<close>
  keeps the cached grid and the \<open>sp\<close> coefficients, which are not the ones the \<open>pp\<close>
  basis maps the angles to, and a later query returns the grid computed before.
\<close>

theorem assign_basis_keeps_cache_counterexample:
  "BlochOrbitalState 0 0 ''sp'' = Inr zero_state_sp
   \<and> p_density_cache sampled_zero_state \<noteq> None
   \<and> p_density_cache (assign_basis sampled_zero_state ''pp'') = p_density_cache sampled_zero_state
   \<and> p_orbital_coeffs (assign_basis sampled_zero_state ''pp'') = [((1, 0, 0), 1), ((2, 0, 0), 0)]
   \<and> bloch_to_orbital_coeffs (p_theta (assign_basis sampled_zero_state ''pp''))
        (p_phi (assign_basis sampled_zero_state ''pp'')) (basis (assign_basis sampled_zero_state ''pp''))
       = Inr [((2, 1, 1), 0), ((2, 1, - 1), 0), ((2, 1, 0), 1)]
   \<and> \<not> refreshed (assign_basis sampled_zero_state ''pp'')
   \<and> fst (calculate_density_grid (assign_basis sampled_zero_state ''pp'') None None True)
       = fst (calculate_density_grid zero_state_sp (Some 1) (Some 1) True)"
proof -
  note S = sampled_zero_state_eq
  have c1: "calculate_density_grid zero_state_sp (Some 1) (Some 1) True
              = (Inr (expected_grid (p_orbital_coeffs zero_state_sp) (Some 1) (Some 1)),
                 sampled_zero_state)"
    using first_sample by (simp add: S)
  have "bloch_to_orbital_coeffs 0 0 ''pp'' = Inr [((2, 1, 1), 0), ((2, 1, - 1), 0), ((2, 1, 0), 1)]"
    by (simp add: bloch_to_orbital_coeffs_def bloch_to_state_vector_cis)
  then show ?thesis
    using zero_state_sp_constructed c1
    by (simp add: S assign_basis_def zero_state_sp_def refreshed_def calculate_density_grid_def)
qed

end
